theory Spec2Isabelle
  imports Complex_Main
begin

unbundle bit_operations_syntax

section \<open>The collision index of the symbol placement (src/symbol/collision\_index.js)\<close>

text \<open>
  JavaScript numbers are modelled as real numbers. The model is exact where the source
  rounds, apart from the construction of the circles of a line label, which is modelled
  with the rounding of each result, and it has no NaN and no infinity: wherever the source divides by a value that
  can be zero and then uses the quotient, the model says so explicitly (a result of type
  \<open>option\<close>, \<open>None\<close> standing for a computation on non-finite numbers or one that
  does not return).
\<close>

subsection \<open>Points (the library @mapbox/point-geometry)\<close>

text \<open>
  The methods of \<open>Point\<close> that the collision index calls, as the library defines them;
  each returns a new point or a number.
\<close>

record Point =
  pt_x :: real
  pt_y :: real

definition Point_new :: "real \<Rightarrow> real \<Rightarrow> Point" where
  "Point_new a b = \<lparr>pt_x = a, pt_y = b\<rparr>"

definition Point_add :: "Point \<Rightarrow> Point \<Rightarrow> Point" where
  "Point_add p q = Point_new (pt_x p + pt_x q) (pt_y p + pt_y q)"

definition Point_sub :: "Point \<Rightarrow> Point \<Rightarrow> Point" where
  "Point_sub p q = Point_new (pt_x p - pt_x q) (pt_y p - pt_y q)"

definition Point_mult :: "Point \<Rightarrow> real \<Rightarrow> Point" where
  "Point_mult p k = Point_new (pt_x p * k) (pt_y p * k)"

definition Point_div :: "Point \<Rightarrow> real \<Rightarrow> Point" where
  "Point_div p k = Point_new (pt_x p / k) (pt_y p / k)"

definition Point_mag :: "Point \<Rightarrow> real" where
  "Point_mag p = sqrt (pt_x p * pt_x p + pt_y p * pt_y p)"

definition Point_dist :: "Point \<Rightarrow> Point \<Rightarrow> real" where
  "Point_dist p q =
     (let dx = pt_x q - pt_x p; dy = pt_y q - pt_y p in sqrt (dx * dx + dy * dy))"

subsection \<open>The camera transform and the feature keys\<close>

record Transform =
  width :: real
  height :: real
  cameraToCenterDistance :: real
  pitch :: real

record FeatureKey =
  bucketInstanceId :: nat
  featureIndex :: nat
  collisionGroupID :: nat

text \<open>The fields of a \<open>SingleCollisionBox\<close> that the collision index reads.\<close>

record SingleCollisionBox =
  box_x1 :: real
  box_y1 :: real
  box_x2 :: real
  box_y2 :: real
  anchorPointX :: real
  anchorPointY :: real

subsection \<open>The spatial grid (src/symbol/grid\_index.js)\<close>

text \<open>
  Modelled from the spec: the class \<open>Grid\<close> of grid\_index.js is not among the sources.
  The spec describes it as a bulk-mutable 2D spatial index supporting insertion of
  axis-aligned boxes and circles tagged with an opaque key, range queries returning all
  entries intersecting a query box (an entry carries its key and bounding rectangle),
  existence queries for a box or a circle with an optional predicate filter, and
  \<open>keysLength\<close>. The model keeps the entries in insertion order and takes
  "intersecting" as the intersection of the closed shapes.
\<close>

datatype Shape = Box real real real real | Circle real real real

record GridEntry =
  entry_key :: FeatureKey
  entry_shape :: Shape

record Grid =
  gridWidth :: real
  gridHeight :: real
  cellSize :: real
  entries :: "GridEntry list"

definition Grid_new :: "real \<Rightarrow> real \<Rightarrow> real \<Rightarrow> Grid" where
  "Grid_new w h c = \<lparr>gridWidth = w, gridHeight = h, cellSize = c, entries = []\<rparr>"

text \<open>
  Modelled from the spec: the intersection test of two shapes. The spec says no more than
  "intersecting"; here two boxes intersect when they overlap on both axes (touching
  included), two circles when their centres are at most the sum of the radii apart, a
  circle and a box when the point of the box nearest to the centre is within the radius.
\<close>

definition clamp :: "real \<Rightarrow> real \<Rightarrow> real \<Rightarrow> real" where
  "clamp lo hi v = max lo (min hi v)"

definition circleIntersectsBox :: "real \<Rightarrow> real \<Rightarrow> real \<Rightarrow> real \<Rightarrow> real \<Rightarrow> real \<Rightarrow> real \<Rightarrow> bool" where
  "circleIntersectsBox cx cy r c1 d1 c2 d2 =
     (let nx = clamp c1 c2 cx; ny = clamp d1 d2 cy
      in (cx - nx) * (cx - nx) + (cy - ny) * (cy - ny) \<le> r * r)"

fun intersects :: "Shape \<Rightarrow> Shape \<Rightarrow> bool" where
  "intersects (Box a1 b1 a2 b2) (Box c1 d1 c2 d2) =
     (a1 \<le> c2 \<and> c1 \<le> a2 \<and> b1 \<le> d2 \<and> d1 \<le> b2)"
| "intersects (Circle cx cy r) (Circle ex ey s) =
     ((ex - cx) * (ex - cx) + (ey - cy) * (ey - cy) \<le> (r + s) * (r + s))"
| "intersects (Circle cx cy r) (Box c1 d1 c2 d2) = circleIntersectsBox cx cy r c1 d1 c2 d2"
| "intersects (Box a1 b1 a2 b2) (Circle ex ey s) = circleIntersectsBox ex ey s a1 b1 a2 b2"

fun boundingBox :: "Shape \<Rightarrow> real \<times> real \<times> real \<times> real" where
  "boundingBox (Box a1 b1 a2 b2) = (a1, b1, a2, b2)"
| "boundingBox (Circle cx cy r) = (cx - r, cy - r, cx + r, cy + r)"

text \<open>
  Modelled from the spec: \<open>insert(key, x1, y1, x2, y2)\<close> and \<open>insertCircle(key, x, y, r)\<close>
  add one entry under the key.
\<close>

definition Grid_insert :: "Grid \<Rightarrow> FeatureKey \<Rightarrow> real \<Rightarrow> real \<Rightarrow> real \<Rightarrow> real \<Rightarrow> Grid" where
  "Grid_insert g k a1 b1 a2 b2 =
     g\<lparr>entries := entries g @ [\<lparr>entry_key = k, entry_shape = Box a1 b1 a2 b2\<rparr>]\<rparr>"

definition Grid_insertCircle :: "Grid \<Rightarrow> FeatureKey \<Rightarrow> real \<Rightarrow> real \<Rightarrow> real \<Rightarrow> Grid" where
  "Grid_insertCircle g k cx cy r =
     g\<lparr>entries := entries g @ [\<lparr>entry_key = k, entry_shape = Circle cx cy r\<rparr>]\<rparr>"

text \<open>
  Modelled from the spec: \<open>hitTest\<close> and \<open>hitTestCircle\<close> say whether the box or the circle
  intersects an entry whose key the predicate accepts. The predicate is optional: an
  absent predicate filters nothing.
\<close>

definition accepts :: "(FeatureKey \<Rightarrow> bool) option \<Rightarrow> FeatureKey \<Rightarrow> bool" where
  "accepts predicate k = (case predicate of None \<Rightarrow> True | Some f \<Rightarrow> f k)"

definition blocks :: "(FeatureKey \<Rightarrow> bool) option \<Rightarrow> Shape \<Rightarrow> GridEntry \<Rightarrow> bool" where
  "blocks predicate s e = (accepts predicate (entry_key e) \<and> intersects s (entry_shape e))"

definition Grid_hitTest ::
  "Grid \<Rightarrow> real \<Rightarrow> real \<Rightarrow> real \<Rightarrow> real \<Rightarrow> (FeatureKey \<Rightarrow> bool) option \<Rightarrow> bool" where
  "Grid_hitTest g a1 b1 a2 b2 predicate = list_ex (blocks predicate (Box a1 b1 a2 b2)) (entries g)"

definition Grid_hitTestCircle ::
  "Grid \<Rightarrow> real \<Rightarrow> real \<Rightarrow> real \<Rightarrow> (FeatureKey \<Rightarrow> bool) option \<Rightarrow> bool" where
  "Grid_hitTestCircle g cx cy r predicate = list_ex (blocks predicate (Circle cx cy r)) (entries g)"

text \<open>
  Modelled from the spec: \<open>query\<close> returns the entries that intersect the box, each with
  its key and its bounding rectangle, and \<open>keysLength\<close> counts the entries.
\<close>

record QueryResult =
  qr_key :: FeatureKey
  qr_x1 :: real
  qr_y1 :: real
  qr_x2 :: real
  qr_y2 :: real

definition toQueryResult :: "GridEntry \<Rightarrow> QueryResult" where
  "toQueryResult e =
     (case boundingBox (entry_shape e) of (a1, b1, a2, b2) \<Rightarrow>
        \<lparr>qr_key = entry_key e, qr_x1 = a1, qr_y1 = b1, qr_x2 = a2, qr_y2 = b2\<rparr>)"

definition Grid_query :: "Grid \<Rightarrow> real \<Rightarrow> real \<Rightarrow> real \<Rightarrow> real \<Rightarrow> QueryResult list" where
  "Grid_query g a1 b1 a2 b2 =
     map toQueryResult (filter (\<lambda>e. intersects (Box a1 b1 a2 b2) (entry_shape e)) (entries g))"

definition Grid_keysLength :: "Grid \<Rightarrow> nat" where
  "Grid_keysLength g = length (entries g)"

subsection \<open>The collision index\<close>

definition viewportPadding :: real where
  "viewportPadding = 100"

record CollisionIndex =
  grid :: Grid
  ignoredGrid :: Grid
  transform :: Transform
  pitchfactor :: real
  screenRightBoundary :: real
  screenBottomBoundary :: real
  gridRightBoundary :: real
  gridBottomBoundary :: real

text \<open>The constructor, with the two grids passed or defaulted as in the source.\<close>

definition CollisionIndex_new :: "Transform \<Rightarrow> Grid option \<Rightarrow> Grid option \<Rightarrow> CollisionIndex" where
  "CollisionIndex_new t g ig =
     \<lparr>grid = (case g of Some g' \<Rightarrow> g'
               | None \<Rightarrow> Grid_new (width t + 2 * viewportPadding) (height t + 2 * viewportPadding) 25),
      ignoredGrid = (case ig of Some g' \<Rightarrow> g'
               | None \<Rightarrow> Grid_new (width t + 2 * viewportPadding) (height t + 2 * viewportPadding) 25),
      transform = t,
      pitchfactor = cos (pitch t) * cameraToCenterDistance t,
      screenRightBoundary = width t + viewportPadding,
      screenBottomBoundary = height t + viewportPadding,
      gridRightBoundary = width t + 2 * viewportPadding,
      gridBottomBoundary = height t + 2 * viewportPadding\<rparr>"

definition isOffscreen :: "CollisionIndex \<Rightarrow> real \<Rightarrow> real \<Rightarrow> real \<Rightarrow> real \<Rightarrow> bool" where
  "isOffscreen ci x1 y1 x2 y2 =
     (x2 < viewportPadding \<or> x1 \<ge> screenRightBoundary ci \<or>
      y2 < viewportPadding \<or> y1 > screenBottomBoundary ci)"

definition isInsideGrid :: "CollisionIndex \<Rightarrow> real \<Rightarrow> real \<Rightarrow> real \<Rightarrow> real \<Rightarrow> bool" where
  "isInsideGrid ci x1 y1 x2 y2 =
     (x2 \<ge> 0 \<and> x1 < gridRightBoundary ci \<and> y2 \<ge> 0 \<and> y1 < gridBottomBoundary ci)"

subsection \<open>Projection\<close>

text \<open>
  Modelled from the spec: \<open>xyTransformMat4\<close> of src/symbol/projection.js is not among the
  sources. The spec says the point is transformed by the matrix, yielding the homogeneous
  \<open>w\<close>; a \<open>mat4\<close> of gl-matrix is an array of 16 numbers in column-major order, here a
  list whose elements 0 to 15 are read.
\<close>

type_synonym mat4 = "real list"

definition xyTransformMat4 :: "real list \<Rightarrow> mat4 \<Rightarrow> real list" where
  "xyTransformMat4 a m =
     (let x = a ! 0; y = a ! 1; z = a ! 2; w = a ! 3 in
      [m ! 0 * x + m ! 4 * y + m ! 8 * z + m ! 12 * w,
       m ! 1 * x + m ! 5 * y + m ! 9 * z + m ! 13 * w,
       m ! 2 * x + m ! 6 * y + m ! 10 * z + m ! 14 * w,
       m ! 3 * x + m ! 7 * y + m ! 11 * z + m ! 15 * w])"

record AnchorProjection =
  ap_perspectiveRatio :: real
  cameraDistance :: real

record PointProjection =
  point :: Point
  perspectiveRatio :: real

text \<open>
  The three projections divide by \<open>p[3]\<close>. For \<open>p[3] = 0\<close> the source goes on with NaN or
  an infinity; the model returns \<open>None\<close> there.
\<close>

definition projectAnchor :: "CollisionIndex \<Rightarrow> mat4 \<Rightarrow> real \<Rightarrow> real \<Rightarrow> AnchorProjection option" where
  "projectAnchor ci posMatrix x y =
     (let p = xyTransformMat4 [x, y, 0, 1] posMatrix in
      if p ! 3 = 0 then None
      else Some \<lparr>ap_perspectiveRatio = 0.5 + 0.5 * (cameraToCenterDistance (transform ci) / p ! 3),
                 cameraDistance = p ! 3\<rparr>)"

definition projectPoint :: "CollisionIndex \<Rightarrow> mat4 \<Rightarrow> real \<Rightarrow> real \<Rightarrow> Point option" where
  "projectPoint ci posMatrix x y =
     (let p = xyTransformMat4 [x, y, 0, 1] posMatrix in
      if p ! 3 = 0 then None
      else Some (Point_new
        ((((p ! 0 / p ! 3 + 1) / 2) * width (transform ci)) + viewportPadding)
        ((((- (p ! 1) / p ! 3 + 1) / 2) * height (transform ci)) + viewportPadding)))"

definition projectAndGetPerspectiveRatio ::
  "CollisionIndex \<Rightarrow> mat4 \<Rightarrow> real \<Rightarrow> real \<Rightarrow> PointProjection option" where
  "projectAndGetPerspectiveRatio ci posMatrix x y =
     (let p = xyTransformMat4 [x, y, 0, 1] posMatrix in
      if p ! 3 = 0 then None
      else
        let a = Point_new
          ((((p ! 0 / p ! 3 + 1) / 2) * width (transform ci)) + viewportPadding)
          ((((- (p ! 1) / p ! 3 + 1) / 2) * height (transform ci)) + viewportPadding)
        in Some \<lparr>point = a,
                  perspectiveRatio = 0.5 + 0.5 * (cameraToCenterDistance (transform ci) / p ! 3)\<rparr>)"

subsection \<open>Box placement and insertion\<close>

record BoxPlacement =
  box :: "real list"
  offscreen :: bool

text \<open>
  For \<open>p[3] = 0\<close> each coordinate of the projected point is an infinity or NaN, and so is
  each corner of the rectangle. \<open>isInsideGrid\<close> then fails, since \<open>x2 >= 0\<close> needs
  \<open>Infinity\<close> at the point and \<open>x1 < gridRightBoundary\<close> needs \<open>-Infinity\<close> there: the source
  returns the empty box.
\<close>

definition placeCollisionBox ::
  "CollisionIndex \<Rightarrow> SingleCollisionBox \<Rightarrow> bool \<Rightarrow> real \<Rightarrow> mat4 \<Rightarrow> (FeatureKey \<Rightarrow> bool) option
     \<Rightarrow> BoxPlacement option" where
  "placeCollisionBox ci collisionBox allowOverlap textPixelRatio posMatrix collisionGroupPredicate =
     (case projectAndGetPerspectiveRatio ci posMatrix (anchorPointX collisionBox) (anchorPointY collisionBox) of
        None \<Rightarrow> Some \<lparr>box = [], offscreen = False\<rparr>
      | Some projectedPoint \<Rightarrow>
          let tileToViewport = textPixelRatio * perspectiveRatio projectedPoint;
              tlX = box_x1 collisionBox * tileToViewport + pt_x (point projectedPoint);
              tlY = box_y1 collisionBox * tileToViewport + pt_y (point projectedPoint);
              brX = box_x2 collisionBox * tileToViewport + pt_x (point projectedPoint);
              brY = box_y2 collisionBox * tileToViewport + pt_y (point projectedPoint)
          in if \<not> isInsideGrid ci tlX tlY brX brY \<or>
                (\<not> allowOverlap \<and> Grid_hitTest (grid ci) tlX tlY brX brY collisionGroupPredicate)
             then Some \<lparr>box = [], offscreen = False\<rparr>
             else Some \<lparr>box = [tlX, tlY, brX, brY], offscreen = isOffscreen ci tlX tlY brX brY\<rparr>)"

text \<open>
  Modelled from the spec: \<open>hitTest\<close> as a call on the grid, with the grid after the call.
  The spec has it as an existence query ("does this box intersect anything"), apart from
  the insertions that change the grid: the grid after the call is the grid before it.
\<close>

definition Grid_hitTest_call ::
  "Grid \<Rightarrow> real \<Rightarrow> real \<Rightarrow> real \<Rightarrow> real \<Rightarrow> (FeatureKey \<Rightarrow> bool) option \<Rightarrow> bool \<times> Grid" where
  "Grid_hitTest_call g a1 b1 a2 b2 predicate = (Grid_hitTest g a1 b1 a2 b2 predicate, g)"

text \<open>
  \<open>placeCollisionBox\<close> as a call on the index: its result and the index after the call.
  The function assigns to no field of the index, and \<open>projectAndGetPerspectiveRatio\<close>,
  \<open>isInsideGrid\<close> and \<open>isOffscreen\<close> only read it. The one call on an object that the index
  holds is \<open>this.grid.hitTest\<close>, made when the rectangle is inside the grid and
  \<open>allowOverlap\<close> is false; the grid after that call is the grid of the index from then on.
\<close>

definition placeCollisionBox_call ::
  "CollisionIndex \<Rightarrow> SingleCollisionBox \<Rightarrow> bool \<Rightarrow> real \<Rightarrow> mat4 \<Rightarrow> (FeatureKey \<Rightarrow> bool) option
     \<Rightarrow> BoxPlacement \<times> CollisionIndex" where
  "placeCollisionBox_call ci collisionBox allowOverlap textPixelRatio posMatrix collisionGroupPredicate =
     (case projectAndGetPerspectiveRatio ci posMatrix (anchorPointX collisionBox) (anchorPointY collisionBox) of
        None \<Rightarrow> (\<lparr>box = [], offscreen = False\<rparr>, ci)
      | Some projectedPoint \<Rightarrow>
          let tileToViewport = textPixelRatio * perspectiveRatio projectedPoint;
              tlX = box_x1 collisionBox * tileToViewport + pt_x (point projectedPoint);
              tlY = box_y1 collisionBox * tileToViewport + pt_y (point projectedPoint);
              brX = box_x2 collisionBox * tileToViewport + pt_x (point projectedPoint);
              brY = box_y2 collisionBox * tileToViewport + pt_y (point projectedPoint)
          in if \<not> isInsideGrid ci tlX tlY brX brY then (\<lparr>box = [], offscreen = False\<rparr>, ci)
             else if allowOverlap
             then (\<lparr>box = [tlX, tlY, brX, brY], offscreen = isOffscreen ci tlX tlY brX brY\<rparr>, ci)
             else
               (case Grid_hitTest_call (grid ci) tlX tlY brX brY collisionGroupPredicate of
                  (hit, g) \<Rightarrow>
                    let ci' = ci\<lparr>grid := g\<rparr> in
                    if hit then (\<lparr>box = [], offscreen = False\<rparr>, ci')
                    else (\<lparr>box = [tlX, tlY, brX, brY],
                           offscreen = isOffscreen ci' tlX tlY brX brY\<rparr>, ci')))"

text \<open>
  \<open>insertCollisionBox\<close> reads the elements 0 to 3 of the array. For a shorter array the
  source hands \<open>undefined\<close> coordinates to the grid; the model returns \<open>None\<close> there.
\<close>

definition insertCollisionBox ::
  "CollisionIndex \<Rightarrow> real list \<Rightarrow> bool \<Rightarrow> nat \<Rightarrow> nat \<Rightarrow> nat \<Rightarrow> CollisionIndex option" where
  "insertCollisionBox ci collisionBox ignorePlacement bid fid gid =
     (if length collisionBox < 4 then None
      else
        let key = \<lparr>bucketInstanceId = bid, featureIndex = fid, collisionGroupID = gid\<rparr> in
        if ignorePlacement
        then Some (ci\<lparr>ignoredGrid := Grid_insert (ignoredGrid ci) key
               (collisionBox ! 0) (collisionBox ! 1) (collisionBox ! 2) (collisionBox ! 3)\<rparr>)
        else Some (ci\<lparr>grid := Grid_insert (grid ci) key
               (collisionBox ! 0) (collisionBox ! 1) (collisionBox ! 2) (collisionBox ! 3)\<rparr>))"

text \<open>
  The loop \<open>for (k = 0; k < collisionCircles.length; k += 4)\<close> of \<open>insertCollisionCircles\<close>;
  \<open>None\<close> where the source reads \<open>collisionCircles[k + 1]\<close> or \<open>collisionCircles[k + 2]\<close>
  beyond the end of the array.
\<close>

fun insertCircleLoop :: "Grid \<Rightarrow> FeatureKey \<Rightarrow> real list \<Rightarrow> Grid option" where
  "insertCircleLoop g key [] = Some g"
| "insertCircleLoop g key [cx, cy, r] = Some (Grid_insertCircle g key cx cy r)"
| "insertCircleLoop g key (cx # cy # r # u # rest) =
     insertCircleLoop (Grid_insertCircle g key cx cy r) key rest"
| "insertCircleLoop g key _ = None"

definition insertCollisionCircles ::
  "CollisionIndex \<Rightarrow> real list \<Rightarrow> bool \<Rightarrow> nat \<Rightarrow> nat \<Rightarrow> nat \<Rightarrow> CollisionIndex option" where
  "insertCollisionCircles ci collisionCircles ignorePlacement bid fid gid =
     (let key = \<lparr>bucketInstanceId = bid, featureIndex = fid, collisionGroupID = gid\<rparr> in
      if ignorePlacement
      then (case insertCircleLoop (ignoredGrid ci) key collisionCircles of
              None \<Rightarrow> None | Some g \<Rightarrow> Some (ci\<lparr>ignoredGrid := g\<rparr>))
      else (case insertCircleLoop (grid ci) key collisionCircles of
              None \<Rightarrow> None | Some g \<Rightarrow> Some (ci\<lparr>grid := g\<rparr>)))"

subsection \<open>The calls of a frame as steps on the index\<close>

text \<open>
  The placement driver calls the index in sequence. A call is a step from the index before
  it to its result and the index after it; \<open>None\<close> where an insertion is outside the model.
\<close>

datatype Call =
    PlaceBox SingleCollisionBox bool real mat4 "(FeatureKey \<Rightarrow> bool) option"
  | InsertBox "real list" bool nat nat nat
  | InsertCircles "real list" bool nat nat nat

datatype Answer = Placed BoxPlacement | Void

fun step :: "CollisionIndex \<Rightarrow> Call \<Rightarrow> (Answer \<times> CollisionIndex) option" where
  "step ci (PlaceBox cb allowOverlap tpr m predicate) =
     (case placeCollisionBox_call ci cb allowOverlap tpr m predicate of
        (r, ci') \<Rightarrow> Some (Placed r, ci'))"
| "step ci (InsertBox b ign bid fid gid) =
     (case insertCollisionBox ci b ign bid fid gid of
        None \<Rightarrow> None | Some ci' \<Rightarrow> Some (Void, ci'))"
| "step ci (InsertCircles cs ign bid fid gid) =
     (case insertCollisionCircles ci cs ign bid fid gid of
        None \<Rightarrow> None | Some ci' \<Rightarrow> Some (Void, ci'))"

fun run :: "CollisionIndex \<Rightarrow> Call list \<Rightarrow> (Answer list \<times> CollisionIndex) option" where
  "run ci [] = Some ([], ci)"
| "run ci (c # cs) =
     (case step ci c of
        None \<Rightarrow> None
      | Some (a, ci') \<Rightarrow>
          (case run ci' cs of None \<Rightarrow> None | Some (as, ci'') \<Rightarrow> Some (a # as, ci'')))"

fun isInsertion :: "Call \<Rightarrow> bool" where
  "isInsertion (PlaceBox cb allowOverlap tpr m predicate) = False"
| "isInsertion (InsertBox b ign bid fid gid) = True"
| "isInsertion (InsertCircles cs ign bid fid gid) = True"

subsection \<open>Line clipping\<close>

definition LEFT :: int where "LEFT = push_bit 0 1"
definition RIGHT :: int where "RIGHT = push_bit 1 1"
definition BOTTOM :: int where "BOTTOM = push_bit 2 1"
definition TOP :: int where "TOP = push_bit 3 1"

definition epsilon :: real where
  "epsilon = 0.00001"

text \<open>\<open>Number.MAX_VALUE\<close>, the largest finite double.\<close>

definition Number_MAX_VALUE :: real where
  "Number_MAX_VALUE = 2 ^ 1024 - 2 ^ 971"

definition computeRegion :: "Point \<Rightarrow> Point \<Rightarrow> Point \<Rightarrow> int" where
  "computeRegion pt mn mx =
     (let region = 0;
          region = region OR LEFT * of_bool (pt_x pt < pt_x mn);
          region = region OR RIGHT * of_bool (pt_x pt > pt_x mx);
          region = region OR TOP * of_bool (pt_y pt < pt_y mn);
          region = region OR BOTTOM * of_bool (pt_y pt > pt_y mx)
      in region)"

text \<open>
  \<open>slabCheckOnAxis\<close> updates the variables \<open>tMin\<close> and \<open>tMax\<close> of \<open>clipLine\<close> and returns
  a boolean: here it takes the two and returns them updated, \<open>None\<close> for \<open>false\<close>.
\<close>

definition slabCheckOnAxis ::
  "real \<Rightarrow> real \<Rightarrow> real \<Rightarrow> real \<Rightarrow> real \<times> real \<Rightarrow> (real \<times> real) option" where
  "slabCheckOnAxis dirVec minVec maxVec startVec tt =
     (case tt of (tMin, tMax) \<Rightarrow>
        if \<bar>dirVec\<bar> < epsilon
        then (if startVec < minVec \<or> startVec > maxVec then None else Some (tMin, tMax))
        else
          let ood = 1 / dirVec;
              t1 = (minVec - startVec) * ood;
              t2 = (maxVec - startVec) * ood;
              t12 = (if t1 > t2 then (t2, t1) else (t1, t2));
              tMin = (if fst t12 > tMin then fst t12 else tMin);
              tMax = (if snd t12 < tMax then snd t12 else tMax)
          in if tMin > tMax \<or> tMax < 0 then None else Some (tMin, tMax))"

definition clipLine :: "Point \<Rightarrow> Point \<Rightarrow> Point \<Rightarrow> Point \<Rightarrow> (Point \<times> Point) option" where
  "clipLine start endPt minBoundary maxBoundary =
     (let startRegion = computeRegion start minBoundary maxBoundary;
          endRegion = computeRegion endPt minBoundary maxBoundary
      in if startRegion = 0 \<and> endRegion = 0 then Some (start, endPt)
         else if startRegion = endRegion then None
         else
           let startToEnd = Point_sub endPt start;
               len = Point_mag startToEnd
           in if len < epsilon then Some (start, endPt)
              else
                let dir = Point_div startToEnd len in
                case slabCheckOnAxis (pt_x dir) (pt_x minBoundary) (pt_x maxBoundary) (pt_x start)
                       (0, Number_MAX_VALUE) of
                  None \<Rightarrow> None
                | Some tt \<Rightarrow>
                   (case slabCheckOnAxis (pt_y dir) (pt_y minBoundary) (pt_y maxBoundary) (pt_y start) tt of
                      None \<Rightarrow> None
                    | Some (tMin0, tMax0) \<Rightarrow>
                        let tMin = min tMin0 len;
                            tMax = min tMax0 len
                        in Some (Point_add start (Point_mult startToEnd (tMin / len)),
                                 Point_add start (Point_mult startToEnd (tMax / len)))))"

subsection \<open>Circle chains for line labels\<close>

record ChainCircle =
  circle_point :: Point
  circle_radius :: real

record Symbol =
  anchorX :: real
  anchorY :: real
  lineOffsetX :: real
  lineOffsetY :: real

text \<open>The two path fragments of the result of \<open>placeFirstAndLastGlyph\<close>.\<close>

record FirstAndLastGlyph =
  first_path :: "Point list"
  last_path :: "Point list"

record CirclePlacement =
  circles :: "real list"
  circles_offscreen :: bool

text \<open>
  The construction of the circles of a chain (lines 226 to 269 of the source) is modelled
  with the rounding of doubles, since the number of the circles of a segment and their
  distance depend on it: every arithmetic result there passes through \<open>rnd\<close>, the rounding
  of an exact result to a double. \<open>rnd\<close> is a parameter; the properties ask of it the
  standard model of floating-point arithmetic, a relative error of at most \<open>2^-53\<close> on
  every result. Rounding to the nearest double has it on the results in the range of the
  normal doubles and on zero, so a run of the source in which no result of these lines
  overflows or underflows is the model at the \<open>rnd\<close> that rounds to the nearest double in
  that range and changes nothing outside it. \<open>Math.ceil\<close> is exact, and so are \<open>- 1\<close>,
  \<open>+ 1\<close> and the counter \<open>i\<close> on integers below \<open>2^53\<close>.
\<close>

definition unitRoundoff :: real where
  "unitRoundoff = 1 / 2 ^ 53"

definition standardRounding :: "(real \<Rightarrow> real) \<Rightarrow> bool" where
  "standardRounding rnd = (\<forall>x. \<bar>rnd x - x\<bar> \<le> unitRoundoff * \<bar>x\<bar>)"

text \<open>The methods of \<open>Point\<close> again, with the rounding of each result.\<close>

definition Point_add_rnd :: "(real \<Rightarrow> real) \<Rightarrow> Point \<Rightarrow> Point \<Rightarrow> Point" where
  "Point_add_rnd rnd p q = Point_new (rnd (pt_x p + pt_x q)) (rnd (pt_y p + pt_y q))"

definition Point_sub_rnd :: "(real \<Rightarrow> real) \<Rightarrow> Point \<Rightarrow> Point \<Rightarrow> Point" where
  "Point_sub_rnd rnd p q = Point_new (rnd (pt_x p - pt_x q)) (rnd (pt_y p - pt_y q))"

definition Point_mult_rnd :: "(real \<Rightarrow> real) \<Rightarrow> Point \<Rightarrow> real \<Rightarrow> Point" where
  "Point_mult_rnd rnd p k = Point_new (rnd (pt_x p * k)) (rnd (pt_y p * k))"

definition Point_div_rnd :: "(real \<Rightarrow> real) \<Rightarrow> Point \<Rightarrow> real \<Rightarrow> Point" where
  "Point_div_rnd rnd p k = Point_new (rnd (pt_x p / k)) (rnd (pt_y p / k))"

definition Point_mag_rnd :: "(real \<Rightarrow> real) \<Rightarrow> Point \<Rightarrow> real" where
  "Point_mag_rnd rnd p = rnd (sqrt (rnd (rnd (pt_x p * pt_x p) + rnd (pt_y p * pt_y p))))"

definition Point_dist_rnd :: "(real \<Rightarrow> real) \<Rightarrow> Point \<Rightarrow> Point \<Rightarrow> real" where
  "Point_dist_rnd rnd p q =
     (let dx = rnd (pt_x q - pt_x p); dy = rnd (pt_y q - pt_y p)
      in rnd (sqrt (rnd (rnd (dx * dx) + rnd (dy * dy)))))"

text \<open>
  The body of the loop over the segments of the path, after the segment is clipped: the
  circles and \<open>lastPlacedCircle\<close> before and after. The number of circles inside the
  segment is \<open>Math.ceil(segLen / (2.0 * radius)) - 1\<close>. Where \<open>2.0 * radius\<close> is zero the
  source divides by zero: a segment of positive length gives \<open>Infinity\<close> and the loop over
  \<open>i\<close> does not end (\<open>None\<close>), a segment of length zero gives NaN and the loop does not run.
\<close>

definition placeSegment ::
  "(real \<Rightarrow> real) \<Rightarrow> real \<Rightarrow> ChainCircle list \<times> Point option \<Rightarrow> Point \<times> Point
     \<Rightarrow> (ChainCircle list \<times> Point option) option" where
  "placeSegment rnd radius st clippedLine =
     (case st of (circles0, lastPlacedCircle0) \<Rightarrow>
        let startPoint = fst clippedLine;
            endPoint = snd clippedLine;
            circles1 =
              (if (case lastPlacedCircle0 of None \<Rightarrow> True
                   | Some l \<Rightarrow> Point_dist_rnd rnd l startPoint \<ge> rnd (2 * radius))
               then circles0 @ [\<lparr>circle_point = startPoint, circle_radius = radius\<rparr>]
               else circles0);
            circles2 = circles1 @ [\<lparr>circle_point = endPoint, circle_radius = radius\<rparr>];
            lastPlacedCircle = Some endPoint;
            startToEnd = Point_sub_rnd rnd endPoint startPoint;
            segLen = Point_mag_rnd rnd startToEnd
        in if rnd (2 * radius) = 0
           then (if 0 < segLen then None else Some (circles2, lastPlacedCircle))
           else
             let circlesInSegment = \<lceil>rnd (segLen / rnd (2 * radius))\<rceil> - 1;
                 circleToCircle = Point_div_rnd rnd startToEnd (of_int (circlesInSegment + 1))
             in Some (circles2 @
                        map (\<lambda>i. \<lparr>circle_point =
                                    Point_add_rnd rnd startPoint
                                      (Point_mult_rnd rnd circleToCircle (of_int i)),
                                  circle_radius = radius\<rparr>)
                          [1..circlesInSegment],
                      lastPlacedCircle))"

text \<open>
  The loop \<open>for (segIdx = 0; segIdx < projectedPath.length - 1; segIdx++)\<close>. \<open>clipLine\<close> is
  in exact arithmetic; the properties of the circles of a segment hold for every segment,
  whatever the clipping returns.
\<close>

fun segmentLoop ::
  "(real \<Rightarrow> real) \<Rightarrow> Point \<Rightarrow> Point \<Rightarrow> real \<Rightarrow> Point list \<Rightarrow> ChainCircle list \<times> Point option
     \<Rightarrow> (ChainCircle list \<times> Point option) option" where
  "segmentLoop rnd labelPlaneMin labelPlaneMax radius (p # q # rest) st =
     (case clipLine p q labelPlaneMin labelPlaneMax of
        None \<Rightarrow> segmentLoop rnd labelPlaneMin labelPlaneMax radius (q # rest) st
      | Some clippedLine \<Rightarrow>
          (case placeSegment rnd radius st clippedLine of
             None \<Rightarrow> None
           | Some st' \<Rightarrow> segmentLoop rnd labelPlaneMin labelPlaneMax radius (q # rest) st'))"
| "segmentLoop rnd labelPlaneMin labelPlaneMax radius path st = Some st"

text \<open>
  The loop over the circles. Its variables are \<open>placedCollisionCircles\<close>,
  \<open>collisionDetected\<close>, \<open>inGrid\<close> and \<open>entirelyOffscreen\<close>; \<open>Inl\<close> is the early return.
\<close>

fun circleLoop ::
  "CollisionIndex \<Rightarrow> bool \<Rightarrow> bool \<Rightarrow> (FeatureKey \<Rightarrow> bool) option \<Rightarrow> ChainCircle list
     \<Rightarrow> real list \<times> bool \<times> bool \<times> bool
     \<Rightarrow> CirclePlacement + real list \<times> bool \<times> bool \<times> bool" where
  "circleLoop ci allowOverlap showCollisionCircles predicate [] st = Inr st"
| "circleLoop ci allowOverlap showCollisionCircles predicate (circle # rest)
     (placedCollisionCircles, collisionDetected, inGrid, entirelyOffscreen) =
     (let px = pt_x (circle_point circle) + viewportPadding;
          py = pt_y (circle_point circle) + viewportPadding;
          placed = placedCollisionCircles @ [px, py, circle_radius circle, 0];
          x1 = px - circle_radius circle;
          y1 = py - circle_radius circle;
          x2 = px + circle_radius circle;
          y2 = py + circle_radius circle;
          entirelyOffscreen' = (entirelyOffscreen \<and> isOffscreen ci x1 y1 x2 y2);
          inGrid' = (inGrid \<or> isInsideGrid ci x1 y1 x2 y2)
      in if \<not> allowOverlap \<and> Grid_hitTestCircle (grid ci) px py (circle_radius circle) predicate
         then (if \<not> showCollisionCircles
               then Inl \<lparr>circles = [], circles_offscreen = False\<rparr>
               else circleLoop ci allowOverlap showCollisionCircles predicate rest
                      (placed, True, inGrid', entirelyOffscreen'))
         else circleLoop ci allowOverlap showCollisionCircles predicate rest
                (placed, collisionDetected, inGrid', entirelyOffscreen'))"

text \<open>The circles of the chain: the first half of the branch \<open>if (firstAndLastGlyph)\<close>.\<close>

definition chainCircles ::
  "(real \<Rightarrow> real) \<Rightarrow> CollisionIndex \<Rightarrow> real \<Rightarrow> FirstAndLastGlyph \<Rightarrow> ChainCircle list option" where
  "chainCircles rnd ci radius firstAndLastGlyph =
     (let labelPlaneMin = Point_new 0 0;
          labelPlaneMax = Point_new (width (transform ci)) (height (transform ci));
          projectedPath = rev (tl (first_path firstAndLastGlyph)) @ tl (last_path firstAndLastGlyph)
      in map_option fst (segmentLoop rnd labelPlaneMin labelPlaneMax radius projectedPath ([], None)))"

text \<open>
  \<open>projection.project\<close> and \<open>projection.placeFirstAndLastGlyph\<close> (src/symbol/projection.js)
  are not among the sources and are parameters here: \<open>project\<close> gives the point of the
  projection, \<open>placeFirstAndLastGlyph\<close> takes the font scale, the two line offsets and the
  two anchor points (the symbol, its arrays, the matrix and the cache are its own) and
  returns the two path fragments or \<open>null\<close>. The radius and the circles of the chain are
  rounded by \<open>rnd\<close>; the rest is in exact arithmetic.
\<close>

definition placeCollisionCircles ::
  "(real \<Rightarrow> real) \<Rightarrow> (Point \<Rightarrow> mat4 \<Rightarrow> Point) \<Rightarrow>
   (real \<Rightarrow> real \<Rightarrow> real \<Rightarrow> Point \<Rightarrow> Point \<Rightarrow> FirstAndLastGlyph option) \<Rightarrow>
   CollisionIndex \<Rightarrow> real list \<Rightarrow> bool \<Rightarrow> real \<Rightarrow> real \<Rightarrow> Symbol \<Rightarrow> real \<Rightarrow> mat4 \<Rightarrow> mat4 \<Rightarrow>
   bool \<Rightarrow> bool \<Rightarrow> (FeatureKey \<Rightarrow> bool) option \<Rightarrow> CirclePlacement option" where
  "placeCollisionCircles rnd project placeFirstAndLastGlyph ci collisionCircles allowOverlap scale
     textPixelRatio symbol fontSize posMatrix labelPlaneMatrix showCollisionCircles pitchWithMap
     collisionGroupPredicate =
     (case projectAnchor ci posMatrix (anchorX symbol) (anchorY symbol) of
        None \<Rightarrow> None
      | Some projectedAnchor \<Rightarrow>
          let tileUnitAnchorPoint = Point_new (anchorX symbol) (anchorY symbol);
              labelPlaneAnchorPoint = project tileUnitAnchorPoint labelPlaneMatrix;
              fontScale = fontSize * ap_perspectiveRatio projectedAnchor / 24;
              lineOffsetX' = lineOffsetX symbol * fontScale;
              lineOffsetY' = lineOffsetY symbol * fontScale;
              firstAndLastGlyph = placeFirstAndLastGlyph fontScale lineOffsetX' lineOffsetY'
                                    labelPlaneAnchorPoint tileUnitAnchorPoint;
              finish = (\<lambda>st. case st of (placed, collisionDetected, inGrid, entirelyOffscreen) \<Rightarrow>
                          \<lparr>circles = (if collisionDetected \<or> \<not> inGrid then [] else placed),
                           circles_offscreen = entirelyOffscreen\<rparr>)
          in case firstAndLastGlyph of
               None \<Rightarrow> Some (finish ([], False, False, True))
             | Some fl \<Rightarrow>
                 (case chainCircles rnd ci (rnd (10 * ap_perspectiveRatio projectedAnchor)) fl of
                    None \<Rightarrow> None
                  | Some cs \<Rightarrow>
                      (case circleLoop ci allowOverlap showCollisionCircles collisionGroupPredicate cs
                              ([], False, False, True) of
                         Inl r \<Rightarrow> Some r
                       | Inr st \<Rightarrow> Some (finish st))))"

subsection \<open>The reverse query\<close>

text \<open>The loop over the points of the query: the shifted points and their bounding box.\<close>

fun queryBounds ::
  "Point list \<Rightarrow> Point list \<times> real \<times> real \<times> real \<times> real \<Rightarrow> Point list \<times> real \<times> real \<times> real \<times> real" where
  "queryBounds [] acc = acc"
| "queryBounds (pt # rest) (query, minX, minY, maxX, maxY) =
     (let gridPoint = Point_new (pt_x pt + viewportPadding) (pt_y pt + viewportPadding)
      in queryBounds rest
           (query @ [gridPoint], min minX (pt_x gridPoint), min minY (pt_y gridPoint),
            max maxX (pt_x gridPoint), max maxY (pt_y gridPoint)))"

text \<open>
  The loop over the features, with \<open>seenFeatures\<close> and \<open>result\<close>. The objects are maps;
  \<open>polygonIntersectsPolygon\<close> (src/util/intersection\_tests.js) is not among the sources
  and is a parameter.
\<close>

fun featureLoop ::
  "(Point list \<Rightarrow> Point list \<Rightarrow> bool) \<Rightarrow> Point list \<Rightarrow> QueryResult list
     \<Rightarrow> (nat \<rightharpoonup> (nat \<rightharpoonup> bool)) \<times> (nat \<rightharpoonup> nat list)
     \<Rightarrow> (nat \<rightharpoonup> (nat \<rightharpoonup> bool)) \<times> (nat \<rightharpoonup> nat list)" where
  "featureLoop polygonIntersectsPolygon query [] st = st"
| "featureLoop polygonIntersectsPolygon query (feature # rest) (seenFeatures0, result0) =
     (let featureKey = qr_key feature;
          b = bucketInstanceId featureKey;
          f = featureIndex featureKey;
          seenOfBucket = (case seenFeatures0 b of None \<Rightarrow> Map.empty | Some m \<Rightarrow> m);
          seenFeatures1 = seenFeatures0(b \<mapsto> seenOfBucket)
      in if seenOfBucket f = Some True
         then featureLoop polygonIntersectsPolygon query rest (seenFeatures1, result0)
         else
           let bbox = [Point_new (qr_x1 feature) (qr_y1 feature),
                       Point_new (qr_x2 feature) (qr_y1 feature),
                       Point_new (qr_x2 feature) (qr_y2 feature),
                       Point_new (qr_x1 feature) (qr_y2 feature)]
           in if \<not> polygonIntersectsPolygon query bbox
              then featureLoop polygonIntersectsPolygon query rest (seenFeatures1, result0)
              else
                let seenFeatures2 = seenFeatures1(b \<mapsto> seenOfBucket(f \<mapsto> True));
                    resultOfBucket = (case result0 b of None \<Rightarrow> [] | Some fs \<Rightarrow> fs);
                    result1 = result0(b \<mapsto> resultOfBucket @ [f])
                in featureLoop polygonIntersectsPolygon query rest (seenFeatures2, result1))"

text \<open>
  The bounds start at \<open>Infinity\<close> and \<open>-Infinity\<close> in the source; the query has a first
  point where the loop is reached, and after it the bounds are its coordinates.
\<close>

fun queryRenderedSymbols ::
  "(Point list \<Rightarrow> Point list \<Rightarrow> bool) \<Rightarrow> CollisionIndex \<Rightarrow> Point list \<Rightarrow> (nat \<rightharpoonup> nat list)" where
  "queryRenderedSymbols polygonIntersectsPolygon ci [] = Map.empty"
| "queryRenderedSymbols polygonIntersectsPolygon ci (pt # rest) =
     (if Grid_keysLength (grid ci) = 0 \<and> Grid_keysLength (ignoredGrid ci) = 0 then Map.empty
      else
        let gridPoint = Point_new (pt_x pt + viewportPadding) (pt_y pt + viewportPadding)
        in case queryBounds rest
                  ([gridPoint], pt_x gridPoint, pt_y gridPoint, pt_x gridPoint, pt_y gridPoint) of
             (query, minX, minY, maxX, maxY) \<Rightarrow>
               let features = Grid_query (grid ci) minX minY maxX maxY @
                              Grid_query (ignoredGrid ci) minX minY maxX maxY
               in snd (featureLoop polygonIntersectsPolygon query features (Map.empty, Map.empty)))"

subsection \<open>Marking a collision circle as used\<close>

text \<open>
  A JavaScript array of numbers: an element is a number or, at a hole and beyond the
  length, \<open>undefined\<close>. Writing at or beyond the length extends the array.
\<close>

datatype jsval = Undefined | Num real

definition js_get :: "jsval list \<Rightarrow> nat \<Rightarrow> jsval" where
  "js_get a i = (if i < length a then a ! i else Undefined)"

definition js_set :: "jsval list \<Rightarrow> nat \<Rightarrow> jsval \<Rightarrow> jsval list" where
  "js_set a i v =
     (if i < length a then a[i := v] else a @ replicate (i - length a) Undefined @ [v])"

definition markCollisionCircleUsed :: "jsval list \<Rightarrow> nat \<Rightarrow> bool \<Rightarrow> jsval list" where
  "markCollisionCircleUsed collisionCircles index used =
     js_set collisionCircles (index + 4) (Num (if used then 1 else 0))"

subsection \<open>Notions for the properties\<close>

text \<open>Two group predicates: the keys of group \<open>g\<close>, and the keys of all other groups.\<close>

definition sameGroup :: "nat \<Rightarrow> FeatureKey \<Rightarrow> bool" where
  "sameGroup g k = (collisionGroupID k = g)"

definition otherGroups :: "nat \<Rightarrow> FeatureKey \<Rightarrow> bool" where
  "otherGroups g k = (collisionGroupID k \<noteq> g)"

text \<open>The grid entry that \<open>insertCollisionBox\<close> adds for a box array and a key.\<close>

definition entryOfBox :: "real list \<Rightarrow> nat \<Rightarrow> nat \<Rightarrow> nat \<Rightarrow> GridEntry" where
  "entryOfBox b bid fid gid =
     \<lparr>entry_key = \<lparr>bucketInstanceId = bid, featureIndex = fid, collisionGroupID = gid\<rparr>,
      entry_shape = Box (b ! 0) (b ! 1) (b ! 2) (b ! 3)\<rparr>"

text \<open>
  What the loop over the circles does with one circle: the 4-tuple it appends, its
  collision test, and its two tests against the screen and the grid.
\<close>

definition circleTuple :: "ChainCircle \<Rightarrow> real list" where
  "circleTuple c =
     [pt_x (circle_point c) + viewportPadding, pt_y (circle_point c) + viewportPadding, circle_radius c, 0]"

definition circleHits :: "CollisionIndex \<Rightarrow> (FeatureKey \<Rightarrow> bool) option \<Rightarrow> ChainCircle \<Rightarrow> bool" where
  "circleHits ci predicate c =
     Grid_hitTestCircle (grid ci) (pt_x (circle_point c) + viewportPadding)
       (pt_y (circle_point c) + viewportPadding) (circle_radius c) predicate"

definition circleOffscreen :: "CollisionIndex \<Rightarrow> ChainCircle \<Rightarrow> bool" where
  "circleOffscreen ci c =
     isOffscreen ci (pt_x (circle_point c) + viewportPadding - circle_radius c)
       (pt_y (circle_point c) + viewportPadding - circle_radius c)
       (pt_x (circle_point c) + viewportPadding + circle_radius c)
       (pt_y (circle_point c) + viewportPadding + circle_radius c)"

definition circleInGrid :: "CollisionIndex \<Rightarrow> ChainCircle \<Rightarrow> bool" where
  "circleInGrid ci c =
     isInsideGrid ci (pt_x (circle_point c) + viewportPadding - circle_radius c)
       (pt_y (circle_point c) + viewportPadding - circle_radius c)
       (pt_x (circle_point c) + viewportPadding + circle_radius c)
       (pt_y (circle_point c) + viewportPadding + circle_radius c)"

text \<open>
  The circles of one clipped segment from \<open>s\<close> to \<open>e\<close>, as the body of the loop computes
  them: the number of circles inside the segment, the centre of the \<open>k\<close>-th of them, and
  the circles that the body appends after the circle at the start: the circle at the end
  and the circles inside. \<open>segmentCentre\<close> numbers the positions along the segment: \<open>s\<close> at
  0, the centres of the circles inside, and \<open>e\<close> after them.
\<close>

definition circlesInSegment :: "(real \<Rightarrow> real) \<Rightarrow> real \<Rightarrow> Point \<Rightarrow> Point \<Rightarrow> int" where
  "circlesInSegment rnd radius s e =
     \<lceil>rnd (Point_mag_rnd rnd (Point_sub_rnd rnd e s) / rnd (2 * radius))\<rceil> - 1"

definition interiorCentre :: "(real \<Rightarrow> real) \<Rightarrow> real \<Rightarrow> Point \<Rightarrow> Point \<Rightarrow> int \<Rightarrow> Point" where
  "interiorCentre rnd radius s e k =
     Point_add_rnd rnd s
       (Point_mult_rnd rnd
          (Point_div_rnd rnd (Point_sub_rnd rnd e s) (of_int (circlesInSegment rnd radius s e + 1)))
          (of_int k))"

definition segmentCentre :: "(real \<Rightarrow> real) \<Rightarrow> real \<Rightarrow> Point \<Rightarrow> Point \<Rightarrow> int \<Rightarrow> Point" where
  "segmentCentre rnd radius s e k =
     (if k \<le> 0 then s
      else if circlesInSegment rnd radius s e < k then e
      else interiorCentre rnd radius s e k)"

definition segmentCircles :: "(real \<Rightarrow> real) \<Rightarrow> real \<Rightarrow> Point \<Rightarrow> Point \<Rightarrow> ChainCircle list" where
  "segmentCircles rnd radius s e =
     \<lparr>circle_point = e, circle_radius = radius\<rparr> #
     map (\<lambda>k. \<lparr>circle_point = interiorCentre rnd radius s e k, circle_radius = radius\<rparr>)
       [1..circlesInSegment rnd radius s e]"

text \<open>
  The bound on the distance of consecutive positions: \<open>2 * radius\<close> with the rounding of the
  length, the quotient and the step, and the rounding of the two positions.
\<close>

definition spacingBound :: "real \<Rightarrow> Point \<Rightarrow> Point \<Rightarrow> real" where
  "spacingBound radius s e =
     2 * radius * (1 + unitRoundoff) / (1 - unitRoundoff) ^ 4 +
     2 * unitRoundoff *
       (\<bar>pt_x s\<bar> + \<bar>pt_y s\<bar> +
        ((1 + unitRoundoff) ^ 3 + (1 + unitRoundoff) ^ 2 + (1 + unitRoundoff) + 1) *
          (\<bar>pt_x e - pt_x s\<bar> + \<bar>pt_y e - pt_y s\<bar>))"

text \<open>
  The invariant of the loop over the features: the list of a bucket has no duplicates and
  all its features are marked as seen.
\<close>

definition recorded :: "(nat \<rightharpoonup> (nat \<rightharpoonup> bool)) \<Rightarrow> (nat \<rightharpoonup> nat list) \<Rightarrow> bool" where
  "recorded seenFeatures result =
     (\<forall>b fs. result b = Some fs \<longrightarrow>
        distinct fs \<and> (\<forall>f \<in> set fs. \<exists>m. seenFeatures b = Some m \<and> m f = Some True))"

subsection \<open>A concrete frame\<close>

text \<open>
  The index of the spec's scenario, built for a viewport of 800 by 600 pixels, and a
  position matrix that translates by \<open>(tx, ty)\<close> and has the homogeneous coordinate \<open>w\<close>.
\<close>

definition frameIndex :: CollisionIndex where
  "frameIndex =
     CollisionIndex_new \<lparr>width = 800, height = 600, cameraToCenterDistance = 1, pitch = 0\<rparr> None None"

definition translation :: "real \<Rightarrow> real \<Rightarrow> real \<Rightarrow> mat4" where
  "translation tx ty w = [1, 0, 0, 0,  0, 1, 0, 0,  0, 0, 1, 0,  tx, ty, 0, w]"

text \<open>
  A box whose anchor projects to (55, 55) under \<open>translation (- (89 / 80)) (23 / 20) 1\<close>, with
  corners at (45, 45) and (65, 65), and a box whose anchor projects to (0, 0) under
  \<open>translation (- (5 / 4)) (4 / 3) 1\<close>, left of the grid. \<open>frameIndex1\<close> and \<open>frameIndex2\<close>
  are the index after the insertion of the box (40, 40, 60, 60) under the key (1, 0, 0) and
  after a second insertion under the key (2, 0, 1).
\<close>

definition scenarioBox :: SingleCollisionBox where
  "scenarioBox = \<lparr>box_x1 = -10, box_y1 = -10, box_x2 = 10, box_y2 = 10, anchorPointX = 0, anchorPointY = 0\<rparr>"

definition edgeBox :: SingleCollisionBox where
  "edgeBox = \<lparr>box_x1 = -60, box_y1 = 10, box_x2 = -10, box_y2 = 20, anchorPointX = 0, anchorPointY = 0\<rparr>"

definition frameIndex1 :: CollisionIndex where
  "frameIndex1 = frameIndex\<lparr>grid := Grid_insert (grid frameIndex)
      \<lparr>bucketInstanceId = 1, featureIndex = 0, collisionGroupID = 0\<rparr> 40 40 60 60\<rparr>"

definition frameIndex2 :: CollisionIndex where
  "frameIndex2 = frameIndex1\<lparr>grid := Grid_insert (grid frameIndex1)
      \<lparr>bucketInstanceId = 2, featureIndex = 0, collisionGroupID = 1\<rparr> 200 200 220 220\<rparr>"

text \<open>
  A line label: the layout routine returns a path from (80, 80) to (104, 112), of length 40,
  whatever the font scale; \<open>exact\<close> is the rounding that changes nothing, as rounding to
  the nearest double does on the results of these examples, which are all doubles. \<open>frameIndex3\<close> holds the feature (1, 0) in both grids, and
  \<open>everyPolygon\<close> is an intersection test that always succeeds.
\<close>

definition exact :: "real \<Rightarrow> real" where
  "exact x = x"

definition sameProjection :: "Point \<Rightarrow> mat4 \<Rightarrow> Point" where
  "sameProjection p m = p"

definition twoPointPath :: "real \<Rightarrow> real \<Rightarrow> real \<Rightarrow> Point \<Rightarrow> Point \<Rightarrow> FirstAndLastGlyph option" where
  "twoPointPath fontScale ox oy labelPlaneAnchorPoint tileUnitAnchorPoint =
     Some \<lparr>first_path = [labelPlaneAnchorPoint, Point_new 80 80],
           last_path = [labelPlaneAnchorPoint, Point_new 104 112]\<rparr>"

definition originSymbol :: Symbol where
  "originSymbol = \<lparr>anchorX = 0, anchorY = 0, lineOffsetX = 0, lineOffsetY = 0\<rparr>"

definition examplePath :: FirstAndLastGlyph where
  "examplePath = \<lparr>first_path = [Point_new 0 0, Point_new 80 80],
                   last_path = [Point_new 0 0, Point_new 104 112]\<rparr>"

definition frameIndex3 :: CollisionIndex where
  "frameIndex3 = frameIndex1\<lparr>ignoredGrid := Grid_insert (ignoredGrid frameIndex1)
      \<lparr>bucketInstanceId = 1, featureIndex = 0, collisionGroupID = 0\<rparr> 50 50 70 70\<rparr>"

definition everyPolygon :: "Point list \<Rightarrow> Point list \<Rightarrow> bool" where
  "everyPolygon q b = True"

section \<open>Properties\<close>

subsection \<open>The screen test\<close>

text \<open>
  C10. \<open>isOffscreen\<close> treats the far boundaries asymmetrically. Its tests are
  \<open>x2 < viewportPadding\<close>, \<open>x1 >= screenRightBoundary\<close>, \<open>y2 < viewportPadding\<close> and
  \<open>y1 > screenBottomBoundary\<close>: a rectangle whose left edge is on the right boundary is
  offscreen, and a rectangle whose top edge is on the bottom boundary is not offscreen
  (no other test holding).
\<close>

theorem isOffscreen_far_boundaries:
  "(isOffscreen ci x1 y1 x2 y2 \<longleftrightarrow>
      x2 < viewportPadding \<or> x1 \<ge> screenRightBoundary ci \<or>
      y2 < viewportPadding \<or> y1 > screenBottomBoundary ci)
   \<and> (x1 = screenRightBoundary ci \<longrightarrow> isOffscreen ci x1 y1 x2 y2)
   \<and> (y1 = screenBottomBoundary ci \<and> viewportPadding \<le> x2 \<and> x1 < screenRightBoundary ci \<and>
        viewportPadding \<le> y2 \<longrightarrow> \<not> isOffscreen ci x1 y1 x2 y2)"
  by (auto simp: isOffscreen_def)

theorem isOffscreen_far_boundaries_witness:
  "screenRightBoundary frameIndex = 900 \<and> isOffscreen frameIndex 900 300 950 350 \<and>
   screenBottomBoundary frameIndex = 700 \<and> \<not> isOffscreen frameIndex 300 700 350 750"
  using isOffscreen_far_boundaries [of frameIndex 900 300 950 350]
        isOffscreen_far_boundaries [of frameIndex 300 700 350 750]
  by (simp add: frameIndex_def CollisionIndex_new_def viewportPadding_def)

subsection \<open>The perspective ratio\<close>

lemma xyTransformMat4_translation:
  "xyTransformMat4 [x, y, 0, 1] (translation tx ty w) = [x + tx, y + ty, 0, w]"
  by (simp add: xyTransformMat4_def translation_def)

text \<open>
  C5, as the spec has it, fails: the ratio is not always in the interval (0,1]. A point
  at half the camera-to-center distance (\<open>w = 1/2\<close>, distance 1) has the ratio 3/2.
\<close>

theorem perspectiveRatio_counterexample:
  "map_option ap_perspectiveRatio (projectAnchor frameIndex (translation 0 0 (1/2)) 0 0) = Some (3/2) \<and>
   map_option perspectiveRatio
     (projectAndGetPerspectiveRatio frameIndex (translation 0 0 (1/2)) 0 0) = Some (3/2) \<and>
   xyTransformMat4 [0, 0, 0, 1] (translation 0 0 (1/2)) ! 3 \<noteq> 0 \<and>
   \<not> ((3/2 :: real) \<le> 1)"
  by (simp add: projectAnchor_def projectAndGetPerspectiveRatio_def xyTransformMat4_translation
      frameIndex_def CollisionIndex_new_def)

text \<open>
  C5, amended. Where the transform yields a homogeneous coordinate \<open>w\<close> other than zero,
  the perspective ratio of \<open>projectAnchor\<close> and of \<open>projectAndGetPerspectiveRatio\<close> is
  \<open>0.5 + 0.5 * (cameraToCenterDistance / w)\<close>, and it lies in (0,1] exactly when
  \<open>cameraToCenterDistance / w\<close> lies in (-1,1].
\<close>

theorem perspectiveRatio_formula:
  "xyTransformMat4 [x, y, 0, 1] posMatrix ! 3 = w \<Longrightarrow> w \<noteq> 0 \<Longrightarrow>
   r = 0.5 + 0.5 * (cameraToCenterDistance (transform ci) / w) \<Longrightarrow>
   map_option ap_perspectiveRatio (projectAnchor ci posMatrix x y) = Some r \<and>
   map_option perspectiveRatio (projectAndGetPerspectiveRatio ci posMatrix x y) = Some r \<and>
   ((0 < r \<and> r \<le> 1) \<longleftrightarrow>
      (- 1 < cameraToCenterDistance (transform ci) / w \<and>
       cameraToCenterDistance (transform ci) / w \<le> 1))"
  by (auto simp: projectAnchor_def projectAndGetPerspectiveRatio_def Let_def)

theorem perspectiveRatio_formula_witness:
  "xyTransformMat4 [3, 4, 0, 1] (translation 0 0 2) ! 3 = 2 \<and> (2::real) \<noteq> 0 \<and>
   map_option ap_perspectiveRatio (projectAnchor frameIndex (translation 0 0 2) 3 4) = Some (3/4) \<and>
   map_option perspectiveRatio
     (projectAndGetPerspectiveRatio frameIndex (translation 0 0 2) 3 4) = Some (3/4) \<and>
   (0::real) < 3/4 \<and> (3/4::real) \<le> 1"
  using perspectiveRatio_formula [of 3 4 "translation 0 0 2" 2 "3/4" frameIndex]
  by (simp add: xyTransformMat4_translation frameIndex_def CollisionIndex_new_def)

subsection \<open>Marking a circle\<close>

lemma js_get_set: "js_get (js_set a i v) j = (if j = i then v else js_get a j)"
  by (auto simp: js_get_def js_set_def nth_append)

text \<open>
  C9. \<open>markCollisionCircleUsed\<close> writes 1 or 0 to the element \<open>index + 4\<close> and to no
  other element; the element \<open>index + 3\<close>, the place of the flag of the 4-tuple that
  begins at \<open>index\<close>, keeps its value.
\<close>

theorem markCollisionCircleUsed_frame:
  "js_get (markCollisionCircleUsed collisionCircles index used) (index + 4)
     = Num (if used then 1 else 0) \<and>
   (\<forall>j. j \<noteq> index + 4 \<longrightarrow>
      js_get (markCollisionCircleUsed collisionCircles index used) j = js_get collisionCircles j) \<and>
   js_get (markCollisionCircleUsed collisionCircles index used) (index + 3)
     = js_get collisionCircles (index + 3)"
  by (simp add: markCollisionCircleUsed_def js_get_set)

theorem markCollisionCircleUsed_frame_witness:
  "(3::nat) \<noteq> 0 + 4 \<and>
   js_get (markCollisionCircleUsed [Num 5, Num 6, Num 10, Num 0, Num 7, Num 8, Num 10, Num 0] 0 True) 3
     = Num 0 \<and>
   js_get (markCollisionCircleUsed [Num 5, Num 6, Num 10, Num 0, Num 7, Num 8, Num 10, Num 0] 0 True) 4
     = Num 1"
  using markCollisionCircleUsed_frame
          [of "[Num 5, Num 6, Num 10, Num 0, Num 7, Num 8, Num 10, Num 0]" 0 True]
  by (simp add: js_get_def)

subsection \<open>Insertion and box placement\<close>

lemma insertCollisionBox_grid:
  "insertCollisionBox ci b False bid fid gid = Some ci1 \<Longrightarrow>
   entries (grid ci1) = entries (grid ci) @ [entryOfBox b bid fid gid] \<and>
   gridRightBoundary ci1 = gridRightBoundary ci \<and> gridBottomBoundary ci1 = gridBottomBoundary ci \<and>
   screenRightBoundary ci1 = screenRightBoundary ci \<and> screenBottomBoundary ci1 = screenBottomBoundary ci \<and>
   transform ci1 = transform ci"
  by (auto simp: insertCollisionBox_def Grid_insert_def entryOfBox_def Let_def split: if_splits)

lemma insertCircleLoop_entries:
  "insertCircleLoop g key cs = Some g' \<Longrightarrow> set (entries g) \<subseteq> set (entries g')"
  by (induction g key cs arbitrary: g' rule: insertCircleLoop.induct)
     (auto simp: Grid_insertCircle_def)

lemma placeCollisionBox_call_index:
  "snd (placeCollisionBox_call ci cb allowOverlap tpr m predicate) = ci"
  by (auto simp: placeCollisionBox_call_def Grid_hitTest_call_def Let_def split: option.splits)

lemma placeCollisionBox_call_result:
  "placeCollisionBox ci cb allowOverlap tpr m predicate
     = Some (fst (placeCollisionBox_call ci cb allowOverlap tpr m predicate))"
  by (auto simp: placeCollisionBox_call_def placeCollisionBox_def Grid_hitTest_call_def Let_def
      split: option.splits)

lemma step_PlaceBox:
  "step ci (PlaceBox cb allowOverlap tpr m predicate)
     = Some (Placed (fst (placeCollisionBox_call ci cb allowOverlap tpr m predicate)), ci)"
  using placeCollisionBox_call_index [of ci cb allowOverlap tpr m predicate]
  by (cases "placeCollisionBox_call ci cb allowOverlap tpr m predicate") simp

lemma step_entries:
  "set (entries (grid ci)) \<subseteq> set (entries (grid ci'))" if "step ci c = Some (a, ci')"
proof (cases c)
  case (PlaceBox cb allowOverlap tpr m predicate)
  then show ?thesis using that by (simp add: step_PlaceBox del: step.simps)
next
  case (InsertBox b ign bid fid gid)
  then show ?thesis using that
    by (cases ign) (auto simp: insertCollisionBox_def Grid_insert_def Let_def split: if_splits)
next
  case (InsertCircles cs ign bid fid gid)
  then show ?thesis using that
    by (cases ign)
       (auto simp: insertCollisionCircles_def Let_def dest!: insertCircleLoop_entries
             split: option.splits)
qed

lemma run_entries:
  "run ci cs = Some (as, ci') \<Longrightarrow> set (entries (grid ci)) \<subseteq> set (entries (grid ci'))"
proof (induction cs arbitrary: ci as)
  case Nil
  then show ?case by simp
next
  case (Cons c cs)
  then show ?case
    by (fastforce split: option.splits prod.splits dest: step_entries)
qed

lemma placeCollisionBox_projected:
  assumes "projectAndGetPerspectiveRatio ci posMatrix (anchorPointX cb) (anchorPointY cb) = Some pp"
    and "tlX = box_x1 cb * (tpr * perspectiveRatio pp) + pt_x (point pp)"
    and "tlY = box_y1 cb * (tpr * perspectiveRatio pp) + pt_y (point pp)"
    and "brX = box_x2 cb * (tpr * perspectiveRatio pp) + pt_x (point pp)"
    and "brY = box_y2 cb * (tpr * perspectiveRatio pp) + pt_y (point pp)"
  shows "placeCollisionBox ci cb allowOverlap tpr posMatrix predicate =
     (if \<not> isInsideGrid ci tlX tlY brX brY \<or>
         (\<not> allowOverlap \<and> Grid_hitTest (grid ci) tlX tlY brX brY predicate)
      then Some \<lparr>box = [], offscreen = False\<rparr>
      else Some \<lparr>box = [tlX, tlY, brX, brY], offscreen = isOffscreen ci tlX tlY brX brY\<rparr>)"
  using assms by (simp add: placeCollisionBox_def Let_def)

lemma Grid_hitTest_iff:
  "Grid_hitTest g a1 b1 a2 b2 predicate \<longleftrightarrow> (\<exists>e \<in> set (entries g). blocks predicate (Box a1 b1 a2 b2) e)"
  by (simp add: Grid_hitTest_def list_ex_iff)

lemma project_translation:
  "w \<noteq> 0 \<Longrightarrow> projectAndGetPerspectiveRatio ci (translation tx ty w) x y =
     Some \<lparr>point = Point_new ((((x + tx) / w + 1) / 2) * width (transform ci) + viewportPadding)
                      (((- (y + ty) / w + 1) / 2) * height (transform ci) + viewportPadding),
           perspectiveRatio = 0.5 + 0.5 * (cameraToCenterDistance (transform ci) / w)\<rparr>"
  by (simp add: projectAndGetPerspectiveRatio_def xyTransformMat4_translation Let_def)

lemma frame_insert:
  "insertCollisionBox frameIndex [a, b, c, d] False bid fid gid =
     Some (frameIndex\<lparr>grid := Grid_insert (grid frameIndex)
        \<lparr>bucketInstanceId = bid, featureIndex = fid, collisionGroupID = gid\<rparr> a b c d\<rparr>)"
  by (simp add: insertCollisionBox_def)

lemma scenario_projection:
  "projectAndGetPerspectiveRatio frameIndex2 (translation (- (89 / 80)) (23 / 20) 1)
      (anchorPointX scenarioBox) (anchorPointY scenarioBox) =
   Some \<lparr>point = Point_new 55 55, perspectiveRatio = 1\<rparr>"
  by (simp add: project_translation scenarioBox_def frameIndex2_def frameIndex1_def frameIndex_def
      CollisionIndex_new_def viewportPadding_def)

lemma edge_projection:
  "projectAndGetPerspectiveRatio ci (translation (- (5 / 4)) (4 / 3) 1)
      (anchorPointX edgeBox) (anchorPointY edgeBox) =
   Some \<lparr>point = Point_new ((- 1 / 8) * width (transform ci) + viewportPadding)
                    ((- 1 / 6) * height (transform ci) + viewportPadding),
         perspectiveRatio = 0.5 + 0.5 * cameraToCenterDistance (transform ci)\<rparr>"
  by (simp add: project_translation edgeBox_def)

text \<open>
  C1, as the spec has it, fails in its second half: the rectangle must also be inside the
  grid. The box (-50, 10, 5, 20) is committed under group 0; the rectangle
  (-60, 10, -10, 20) overlaps it, the predicate excludes group 0 and the grid holds no other
  entry, and the placement returns the empty box, the rectangle being left of the grid.
\<close>

theorem insertion_effect_counterexample:
  "insertCollisionBox frameIndex [- 50, 10, 5, 20] False 1 0 0 \<noteq> None \<and>
   entries (grid (the (insertCollisionBox frameIndex [- 50, 10, 5, 20] False 1 0 0)))
     = [entryOfBox [- 50, 10, 5, 20] 1 0 0] \<and>
   projectAndGetPerspectiveRatio (the (insertCollisionBox frameIndex [- 50, 10, 5, 20] False 1 0 0))
      (translation (- (5 / 4)) (4 / 3) 1) (anchorPointX edgeBox) (anchorPointY edgeBox)
     = Some \<lparr>point = Point_new 0 0, perspectiveRatio = 1\<rparr> \<and>
   intersects (Box (- 60) 10 (- 10) 20) (Box (- 50) 10 5 20) \<and>
   \<not> accepts (Some (otherGroups 0)) \<lparr>bucketInstanceId = 1, featureIndex = 0, collisionGroupID = 0\<rparr> \<and>
   placeCollisionBox (the (insertCollisionBox frameIndex [- 50, 10, 5, 20] False 1 0 0))
      edgeBox False 1 (translation (- (5 / 4)) (4 / 3) 1) (Some (otherGroups 0))
     = Some \<lparr>box = [], offscreen = False\<rparr>"
proof -
  let ?ci = "frameIndex\<lparr>grid := Grid_insert (grid frameIndex)
        \<lparr>bucketInstanceId = 1, featureIndex = 0, collisionGroupID = 0\<rparr> (- 50) 10 5 20\<rparr>"
  have t: "width (transform ?ci) = 800" "height (transform ?ci) = 600"
     "cameraToCenterDistance (transform ?ci) = 1" "gridRightBoundary ?ci = 1000"
     "gridBottomBoundary ?ci = 800"
    by (simp_all add: frameIndex_def CollisionIndex_new_def viewportPadding_def)
  have e: "entries (grid ?ci) = [entryOfBox [- 50, 10, 5, 20] 1 0 0]"
    by (simp add: frameIndex_def CollisionIndex_new_def Grid_insert_def Grid_new_def entryOfBox_def)
  have pr: "projectAndGetPerspectiveRatio ?ci (translation (- (5 / 4)) (4 / 3) 1)
      (anchorPointX edgeBox) (anchorPointY edgeBox) = Some \<lparr>point = Point_new 0 0, perspectiveRatio = 1\<rparr>"
    unfolding edge_projection
    by (simp add: frameIndex_def CollisionIndex_new_def viewportPadding_def)
  have pl: "placeCollisionBox ?ci edgeBox False 1 (translation (- (5 / 4)) (4 / 3) 1) (Some (otherGroups 0))
     = Some \<lparr>box = [], offscreen = False\<rparr>"
    using placeCollisionBox_projected [OF pr refl refl refl refl, where allowOverlap = False and tpr = 1
             and predicate = "Some (otherGroups 0)"]
    by (simp add: isInsideGrid_def edgeBox_def Point_new_def)
  have a: "\<not> accepts (Some (otherGroups 0)) \<lparr>bucketInstanceId = 1, featureIndex = 0, collisionGroupID = 0\<rparr>"
    by (simp add: accepts_def otherGroups_def)
  show ?thesis unfolding frame_insert option.sel using e pr pl a by simp
qed

text \<open>
  C1, amended. Let the box \<open>b\<close> be committed by \<open>insertCollisionBox\<close> with
  \<open>ignorePlacement = false\<close> under the group \<open>g\<close>, and let any calls follow. A later
  \<open>placeCollisionBox\<close> with \<open>allowOverlap = false\<close> whose projected rectangle overlaps
  \<open>b\<close> returns the empty box when its predicate accepts the key of \<open>b\<close>; it returns the
  projected rectangle when its predicate excludes the group \<open>g\<close>, no matching entry of
  another group overlaps, and the rectangle is inside the grid.
\<close>

theorem insertion_effect:
  assumes "insertCollisionBox ci b False bid fid g = Some ci1"
    and "run ci1 calls = Some (answers, ci2)"
    and "projectAndGetPerspectiveRatio ci2 posMatrix (anchorPointX cb) (anchorPointY cb) = Some pp"
    and "tlX = box_x1 cb * (tpr * perspectiveRatio pp) + pt_x (point pp)"
    and "tlY = box_y1 cb * (tpr * perspectiveRatio pp) + pt_y (point pp)"
    and "brX = box_x2 cb * (tpr * perspectiveRatio pp) + pt_x (point pp)"
    and "brY = box_y2 cb * (tpr * perspectiveRatio pp) + pt_y (point pp)"
    and "intersects (Box tlX tlY brX brY) (Box (b ! 0) (b ! 1) (b ! 2) (b ! 3))"
  shows "(accepts predicate \<lparr>bucketInstanceId = bid, featureIndex = fid, collisionGroupID = g\<rparr> \<longrightarrow>
            placeCollisionBox ci2 cb False tpr posMatrix predicate = Some \<lparr>box = [], offscreen = False\<rparr>)
       \<and> ((\<forall>k. collisionGroupID k = g \<longrightarrow> \<not> accepts predicate k) \<and>
          (\<forall>e \<in> set (entries (grid ci2)). collisionGroupID (entry_key e) \<noteq> g \<longrightarrow>
                \<not> blocks predicate (Box tlX tlY brX brY) e) \<and>
          isInsideGrid ci2 tlX tlY brX brY \<longrightarrow>
            placeCollisionBox ci2 cb False tpr posMatrix predicate =
              Some \<lparr>box = [tlX, tlY, brX, brY], offscreen = isOffscreen ci2 tlX tlY brX brY\<rparr>)"
proof -
  have mem: "entryOfBox b bid fid g \<in> set (entries (grid ci2))"
    using insertCollisionBox_grid [OF assms(1)] run_entries [OF assms(2)] by auto
  have place: "placeCollisionBox ci2 cb False tpr posMatrix predicate =
     (if \<not> isInsideGrid ci2 tlX tlY brX brY \<or> Grid_hitTest (grid ci2) tlX tlY brX brY predicate
      then Some \<lparr>box = [], offscreen = False\<rparr>
      else Some \<lparr>box = [tlX, tlY, brX, brY], offscreen = isOffscreen ci2 tlX tlY brX brY\<rparr>)"
    using placeCollisionBox_projected [OF assms(3-7), of False predicate] by simp
  have hit: "Grid_hitTest (grid ci2) tlX tlY brX brY predicate"
    if "accepts predicate \<lparr>bucketInstanceId = bid, featureIndex = fid, collisionGroupID = g\<rparr>"
  proof -
    have "blocks predicate (Box tlX tlY brX brY) (entryOfBox b bid fid g)"
      using that assms(8) by (simp add: blocks_def entryOfBox_def)
    with mem show ?thesis unfolding Grid_hitTest_iff by blast
  qed
  have nohit: "\<not> Grid_hitTest (grid ci2) tlX tlY brX brY predicate"
    if "\<forall>k. collisionGroupID k = g \<longrightarrow> \<not> accepts predicate k"
      and "\<forall>e \<in> set (entries (grid ci2)). collisionGroupID (entry_key e) \<noteq> g \<longrightarrow>
                \<not> blocks predicate (Box tlX tlY brX brY) e"
    unfolding Grid_hitTest_iff using that by (auto simp: blocks_def)
  show ?thesis using place hit nohit by auto
qed

theorem insertion_effect_witness:
  "insertCollisionBox frameIndex [40, 40, 60, 60] False 1 0 0 = Some frameIndex1 \<and>
   run frameIndex1 [InsertBox [200, 200, 220, 220] False 2 0 1] = Some ([Void], frameIndex2) \<and>
   intersects (Box 45 45 65 65) (Box 40 40 60 60) \<and>
   placeCollisionBox frameIndex2 scenarioBox False 1 (translation (- (89 / 80)) (23 / 20) 1)
       (Some (sameGroup 0)) = Some \<lparr>box = [], offscreen = False\<rparr> \<and>
   placeCollisionBox frameIndex2 scenarioBox False 1 (translation (- (89 / 80)) (23 / 20) 1)
       (Some (otherGroups 0)) = Some \<lparr>box = [45, 45, 65, 65], offscreen = True\<rparr>"
proof -
  let ?m = "translation (- (89 / 80)) (23 / 20) 1"
  let ?pp = "\<lparr>point = Point_new 55 55, perspectiveRatio = 1\<rparr>"
  have h1: "insertCollisionBox frameIndex [40, 40, 60, 60] False 1 0 0 = Some frameIndex1"
    by (simp add: frame_insert frameIndex1_def)
  have h2: "run frameIndex1 [InsertBox [200, 200, 220, 220] False 2 0 1] = Some ([Void], frameIndex2)"
    by (simp add: insertCollisionBox_def frameIndex2_def)
  have h4: "45 = box_x1 scenarioBox * (1 * perspectiveRatio ?pp) + pt_x (point ?pp)"
    and h5: "45 = box_y1 scenarioBox * (1 * perspectiveRatio ?pp) + pt_y (point ?pp)"
    and h6: "65 = box_x2 scenarioBox * (1 * perspectiveRatio ?pp) + pt_x (point ?pp)"
    and h7: "65 = box_y2 scenarioBox * (1 * perspectiveRatio ?pp) + pt_y (point ?pp)"
    by (simp_all add: scenarioBox_def Point_new_def)
  have h8: "intersects (Box 45 45 65 65) (Box ([40, 40, 60, 60] ! 0) ([40, 40, 60, 60] ! 1)
              ([40, 40, 60, 60] ! 2) ([40, 40, 60, 60] ! 3))"
    by simp
  have acc: "accepts (Some (sameGroup 0)) \<lparr>bucketInstanceId = 1, featureIndex = 0, collisionGroupID = 0\<rparr>"
    by (simp add: accepts_def sameGroup_def)
  have excl: "\<forall>k. collisionGroupID k = 0 \<longrightarrow> \<not> accepts (Some (otherGroups 0)) k"
    by (simp add: accepts_def otherGroups_def)
  have others: "\<forall>e \<in> set (entries (grid frameIndex2)). collisionGroupID (entry_key e) \<noteq> 0 \<longrightarrow>
                  \<not> blocks (Some (otherGroups 0)) (Box 45 45 65 65) e"
    by (simp add: frameIndex2_def frameIndex1_def frameIndex_def CollisionIndex_new_def
        Grid_insert_def Grid_new_def blocks_def)
  have inside: "isInsideGrid frameIndex2 45 45 65 65"
    by (simp add: isInsideGrid_def frameIndex2_def frameIndex1_def frameIndex_def
        CollisionIndex_new_def viewportPadding_def)
  have off: "isOffscreen frameIndex2 45 45 65 65"
    by (simp add: isOffscreen_def viewportPadding_def)
  show ?thesis
    using insertion_effect [OF h1 h2 scenario_projection h4 h5 h6 h7 h8, of "Some (sameGroup 0)"]
          insertion_effect [OF h1 h2 scenario_projection h4 h5 h6 h7 h8, of "Some (otherGroups 0)"]
          h1 h2 acc excl others inside off
    by simp
qed

text \<open>
  C2, as the spec has it, fails for \<open>allowOverlap = true\<close>: the flag is \<open>offscreen: true\<close>.
  The rectangle (45, 45, 65, 65) ends left of and above the 100 pixels of padding.
\<close>

theorem scenario_counterexample:
  "insertCollisionBox frameIndex [40, 40, 60, 60] False 1 0 0 \<noteq> None \<and>
   placeCollisionBox (the (insertCollisionBox frameIndex [40, 40, 60, 60] False 1 0 0))
      scenarioBox True 1 (translation (- (89 / 80)) (23 / 20) 1) (Some (sameGroup 0))
   = Some \<lparr>box = [45, 45, 65, 65], offscreen = True\<rparr> \<and>
   placeCollisionBox (the (insertCollisionBox frameIndex [40, 40, 60, 60] False 1 0 0))
      scenarioBox True 1 (translation (- (89 / 80)) (23 / 20) 1) (Some (sameGroup 0))
   \<noteq> Some \<lparr>box = [45, 45, 65, 65], offscreen = False\<rparr>"
  unfolding frame_insert option.sel
  by (simp add: placeCollisionBox_def project_translation scenarioBox_def
       frameIndex_def CollisionIndex_new_def viewportPadding_def Point_new_def
       isInsideGrid_def isOffscreen_def Let_def)


text \<open>
  C2, amended. On an index built for a viewport of 800 by 600 (a grid of 1000 by 800),
  after the insertion of the box (40, 40, 60, 60) under the key (1, 0, 0) into the occlusion
  grid, a \<open>placeCollisionBox\<close> whose projected rectangle is (45, 45, 65, 65) and whose
  predicate accepts the key returns the empty box and \<open>offscreen: false\<close> for
  \<open>allowOverlap = false\<close>, and the box (45, 45, 65, 65) and \<open>offscreen: true\<close> for
  \<open>allowOverlap = true\<close>.
\<close>

theorem scenario_800_600:
  assumes "width t = 800" and "height t = 600"
    and "insertCollisionBox (CollisionIndex_new t None None) [40, 40, 60, 60] False 1 0 0 = Some ci1"
    and "projectAndGetPerspectiveRatio ci1 posMatrix (anchorPointX cb) (anchorPointY cb) = Some pp"
    and "45 = box_x1 cb * (tpr * perspectiveRatio pp) + pt_x (point pp)"
    and "45 = box_y1 cb * (tpr * perspectiveRatio pp) + pt_y (point pp)"
    and "65 = box_x2 cb * (tpr * perspectiveRatio pp) + pt_x (point pp)"
    and "65 = box_y2 cb * (tpr * perspectiveRatio pp) + pt_y (point pp)"
    and "accepts predicate \<lparr>bucketInstanceId = 1, featureIndex = 0, collisionGroupID = 0\<rparr>"
  shows "gridRightBoundary ci1 = 1000 \<and> gridBottomBoundary ci1 = 800 \<and>
         placeCollisionBox ci1 cb False tpr posMatrix predicate = Some \<lparr>box = [], offscreen = False\<rparr> \<and>
         placeCollisionBox ci1 cb True tpr posMatrix predicate
           = Some \<lparr>box = [45, 45, 65, 65], offscreen = True\<rparr>"
proof -
  let ?ci = "CollisionIndex_new t None None"
  have g: "gridRightBoundary ci1 = 1000" "gridBottomBoundary ci1 = 800"
    using insertCollisionBox_grid [OF assms(3)] assms(1,2)
    by (simp_all add: CollisionIndex_new_def viewportPadding_def)
  have inside: "isInsideGrid ci1 45 45 65 65"
    using g by (simp add: isInsideGrid_def)
  have hit: "Grid_hitTest (grid ci1) 45 45 65 65 predicate"
    unfolding Grid_hitTest_iff using insertCollisionBox_grid [OF assms(3)] assms(9)
    by (auto simp: blocks_def entryOfBox_def)
  have off: "isOffscreen ci1 45 45 65 65"
    by (simp add: isOffscreen_def viewportPadding_def)
  show ?thesis
    using placeCollisionBox_projected [OF assms(4-8), of False predicate]
          placeCollisionBox_projected [OF assms(4-8), of True predicate] g inside hit off
    by simp
qed

theorem scenario_800_600_witness:
  "width (transform frameIndex) = 800 \<and> height (transform frameIndex) = 600 \<and>
   insertCollisionBox frameIndex [40, 40, 60, 60] False 1 0 0 = Some frameIndex1 \<and>
   accepts (Some (sameGroup 0)) \<lparr>bucketInstanceId = 1, featureIndex = 0, collisionGroupID = 0\<rparr> \<and>
   placeCollisionBox frameIndex1 scenarioBox False 1 (translation (- (89 / 80)) (23 / 20) 1)
       (Some (sameGroup 0)) = Some \<lparr>box = [], offscreen = False\<rparr> \<and>
   placeCollisionBox frameIndex1 scenarioBox True 1 (translation (- (89 / 80)) (23 / 20) 1)
       (Some (sameGroup 0)) = Some \<lparr>box = [45, 45, 65, 65], offscreen = True\<rparr>"
proof -
  let ?t = "\<lparr>width = 800, height = 600, cameraToCenterDistance = 1, pitch = 0\<rparr>"
  let ?pp = "\<lparr>point = Point_new 55 55, perspectiveRatio = 1\<rparr>"
  have t: "width ?t = 800" "height ?t = 600" by simp_all
  have h1: "insertCollisionBox (CollisionIndex_new ?t None None) [40, 40, 60, 60] False 1 0 0
              = Some frameIndex1"
    using frame_insert [of 40 40 60 60 1 0 0] by (simp add: frameIndex1_def frameIndex_def)
  have pr: "projectAndGetPerspectiveRatio frameIndex1 (translation (- (89 / 80)) (23 / 20) 1)
      (anchorPointX scenarioBox) (anchorPointY scenarioBox) = Some ?pp"
    by (simp add: project_translation scenarioBox_def frameIndex1_def frameIndex_def
      CollisionIndex_new_def viewportPadding_def)
  have h4: "45 = box_x1 scenarioBox * (1 * perspectiveRatio ?pp) + pt_x (point ?pp)"
    and h5: "45 = box_y1 scenarioBox * (1 * perspectiveRatio ?pp) + pt_y (point ?pp)"
    and h6: "65 = box_x2 scenarioBox * (1 * perspectiveRatio ?pp) + pt_x (point ?pp)"
    and h7: "65 = box_y2 scenarioBox * (1 * perspectiveRatio ?pp) + pt_y (point ?pp)"
    by (simp_all add: scenarioBox_def Point_new_def)
  have acc: "accepts (Some (sameGroup 0)) \<lparr>bucketInstanceId = 1, featureIndex = 0, collisionGroupID = 0\<rparr>"
    by (simp add: accepts_def sameGroup_def)
  show ?thesis
    using scenario_800_600 [OF t h1 pr h4 h5 h6 h7 acc] h1 acc
    by (simp add: frameIndex_def CollisionIndex_new_def)
qed

subsection \<open>Placement is a query\<close>

lemma run_append:
  "run ci (xs @ ys) =
     (case run ci xs of None \<Rightarrow> None
      | Some (as, ci1) \<Rightarrow> (case run ci1 ys of None \<Rightarrow> None | Some (bs, ci2) \<Rightarrow> Some (as @ bs, ci2)))"
  by (induction xs arbitrary: ci) (auto split: option.splits prod.splits)

lemma run_placements:
  "\<forall>c \<in> set cs. \<not> isInsertion c \<Longrightarrow> \<exists>as. run ci cs = Some (as, ci)"
proof (induction cs)
  case Nil
  then show ?case by simp
next
  case (Cons c cs)
  then obtain as where as: "run ci cs = Some (as, ci)" by auto
  from Cons.prems obtain cb allowOverlap tpr m predicate
    where c: "c = PlaceBox cb allowOverlap tpr m predicate"
    by (cases c) auto
  show ?case unfolding c using as by (simp add: step_PlaceBox del: step.simps)
qed

text \<open>
  C7. Two calls of \<open>placeCollisionBox\<close> with the same arguments, with no insertion between
  them (other placements may lie between), both return, with the same box and the same
  flag, and the index after them is the index before them: the function writes no field,
  and the one call it makes on the grid is \<open>hitTest\<close>, a query.
\<close>

theorem placeCollisionBox_idempotent:
  assumes "\<forall>c \<in> set between. \<not> isInsertion c"
  shows "\<exists>r answers.
           run ci (PlaceBox cb allowOverlap tpr m predicate # between @
                   [PlaceBox cb allowOverlap tpr m predicate])
             = Some (Placed r # answers @ [Placed r], ci) \<and>
           placeCollisionBox_call ci cb allowOverlap tpr m predicate = (r, ci)"
proof -
  let ?p = "PlaceBox cb allowOverlap tpr m predicate"
  let ?r = "fst (placeCollisionBox_call ci cb allowOverlap tpr m predicate)"
  from run_placements [OF assms] obtain as where mid: "run ci between = Some (as, ci)" by blast
  have last: "run ci [?p] = Some ([Placed ?r], ci)"
    by (simp add: step_PlaceBox del: step.simps)
  have "run ci (between @ [?p]) = Some (as @ [Placed ?r], ci)"
    by (simp add: run_append mid last del: run.simps)
  then have "run ci (?p # between @ [?p]) = Some (Placed ?r # as @ [Placed ?r], ci)"
    by (simp add: step_PlaceBox del: step.simps)
  moreover have "placeCollisionBox_call ci cb allowOverlap tpr m predicate = (?r, ci)"
    using placeCollisionBox_call_index [of ci cb allowOverlap tpr m predicate]
    by (cases "placeCollisionBox_call ci cb allowOverlap tpr m predicate") simp
  ultimately show ?thesis by blast
qed

theorem placeCollisionBox_idempotent_witness:
  "run frameIndex1
     [PlaceBox scenarioBox False 1 (translation (- (89 / 80)) (23 / 20) 1) (Some (otherGroups 0)),
      PlaceBox scenarioBox False 1 (translation (- (89 / 80)) (23 / 20) 1) (Some (sameGroup 0)),
      PlaceBox scenarioBox False 1 (translation (- (89 / 80)) (23 / 20) 0) None,
      PlaceBox scenarioBox False 1 (translation (- (89 / 80)) (23 / 20) 1) (Some (otherGroups 0))]
     = Some ([Placed \<lparr>box = [45, 45, 65, 65], offscreen = True\<rparr>,
              Placed \<lparr>box = [], offscreen = False\<rparr>,
              Placed \<lparr>box = [], offscreen = False\<rparr>,
              Placed \<lparr>box = [45, 45, 65, 65], offscreen = True\<rparr>], frameIndex1) \<and>
   Grid_hitTest (grid frameIndex1) 45 45 65 65 (Some (sameGroup 0)) \<and>
   \<not> Grid_hitTest (grid frameIndex1) 45 45 65 65 (Some (otherGroups 0))"
proof -
  let ?m = "translation (- (89 / 80)) (23 / 20) 1"
  let ?p = "PlaceBox scenarioBox False 1 ?m (Some (otherGroups 0))"
  let ?q = "PlaceBox scenarioBox False 1 ?m (Some (sameGroup 0))"
  let ?z = "PlaceBox scenarioBox False 1 (translation (- (89 / 80)) (23 / 20) 0) None"
  have t: "width (transform frameIndex1) = 800" "height (transform frameIndex1) = 600"
     "cameraToCenterDistance (transform frameIndex1) = 1" "gridRightBoundary frameIndex1 = 1000"
     "gridBottomBoundary frameIndex1 = 800" "screenRightBoundary frameIndex1 = 900"
     "screenBottomBoundary frameIndex1 = 700"
     "entries (grid frameIndex1) = [entryOfBox [40, 40, 60, 60] 1 0 0]"
    by (simp_all add: frameIndex1_def frameIndex_def CollisionIndex_new_def viewportPadding_def
        Grid_insert_def Grid_new_def entryOfBox_def)
  have pr: "projectAndGetPerspectiveRatio frameIndex1 ?m
      (anchorPointX scenarioBox) (anchorPointY scenarioBox)
      = Some \<lparr>point = Point_new 55 55, perspectiveRatio = 1\<rparr>"
    by (simp add: project_translation scenarioBox_def t viewportPadding_def)
  have hit: "Grid_hitTest (grid frameIndex1) 45 45 65 65 (Some (sameGroup 0))"
    and miss: "\<not> Grid_hitTest (grid frameIndex1) 45 45 65 65 (Some (otherGroups 0))"
    by (simp_all add: Grid_hitTest_def t entryOfBox_def blocks_def accepts_def sameGroup_def
        otherGroups_def)
  have inside: "isInsideGrid frameIndex1 45 45 65 65" and off: "isOffscreen frameIndex1 45 45 65 65"
    by (simp_all add: isInsideGrid_def isOffscreen_def t viewportPadding_def)
  have p: "fst (placeCollisionBox_call frameIndex1 scenarioBox False 1 ?m (Some (otherGroups 0)))
             = \<lparr>box = [45, 45, 65, 65], offscreen = True\<rparr>"
    using placeCollisionBox_call_result [of frameIndex1 scenarioBox False 1 ?m "Some (otherGroups 0)"]
          placeCollisionBox_projected [OF pr refl refl refl refl, where allowOverlap = False
            and tpr = 1 and predicate = "Some (otherGroups 0)"] miss inside off
    by (simp add: scenarioBox_def Point_new_def)
  have q: "fst (placeCollisionBox_call frameIndex1 scenarioBox False 1 ?m (Some (sameGroup 0)))
             = \<lparr>box = [], offscreen = False\<rparr>"
    using placeCollisionBox_call_result [of frameIndex1 scenarioBox False 1 ?m "Some (sameGroup 0)"]
          placeCollisionBox_projected [OF pr refl refl refl refl, where allowOverlap = False
            and tpr = 1 and predicate = "Some (sameGroup 0)"] hit inside
    by (simp add: scenarioBox_def Point_new_def)
  have z: "fst (placeCollisionBox_call frameIndex1 scenarioBox False 1
                  (translation (- (89 / 80)) (23 / 20) 0) None)
             = \<lparr>box = [], offscreen = False\<rparr>"
    by (simp add: placeCollisionBox_call_def projectAndGetPerspectiveRatio_def
        xyTransformMat4_translation)
  have b: "\<forall>c \<in> set [?q, ?z]. \<not> isInsertion c" by simp
  have r: "run frameIndex1 (?p # [?q, ?z] @ [?p]) =
      Some ([Placed \<lparr>box = [45, 45, 65, 65], offscreen = True\<rparr>,
              Placed \<lparr>box = [], offscreen = False\<rparr>,
              Placed \<lparr>box = [], offscreen = False\<rparr>,
              Placed \<lparr>box = [45, 45, 65, 65], offscreen = True\<rparr>], frameIndex1)"
    by (simp add: step_PlaceBox p q z del: step.simps)
  show ?thesis
    using placeCollisionBox_idempotent [OF b, of frameIndex1 scenarioBox False 1 ?m "Some (otherGroups 0)"]
          r hit miss
    by (simp only: append_Cons append_Nil simp_thms)
qed

subsection \<open>Line clipping\<close>

lemma region_consts: "LEFT = 1" "RIGHT = 2" "BOTTOM = 4" "TOP = 8"
  by (simp_all add: LEFT_def RIGHT_def BOTTOM_def TOP_def)

lemma computeRegion_inside:
  "pt_x mn \<le> pt_x p \<Longrightarrow> pt_x p \<le> pt_x mx \<Longrightarrow> pt_y mn \<le> pt_y p \<Longrightarrow> pt_y p \<le> pt_y mx \<Longrightarrow>
   computeRegion p mn mx = 0"
  by (simp add: computeRegion_def)

lemma computeRegion_left:
  "pt_x p < pt_x mn \<Longrightarrow> pt_x mn \<le> pt_x mx \<Longrightarrow> pt_y mn \<le> pt_y p \<Longrightarrow> pt_y p \<le> pt_y mx \<Longrightarrow>
   computeRegion p mn mx = 1"
  by (simp add: computeRegion_def region_consts)

lemma sqrt_25: "sqrt 25 = 5"
  by (rule real_sqrt_unique) simp_all

lemma max_value_large: "100 < Number_MAX_VALUE"
  by (simp add: Number_MAX_VALUE_def)

text \<open>
  What holds of C6: a segment with both endpoints inside the rectangle is returned
  unchanged, and a segment whose endpoints have the same region code other than zero gives
  \<open>null\<close>, so a segment left of \<open>min.x\<close> whose endpoints are both within \<open>[min.y, max.y]\<close>.
\<close>

lemma clipLine_inside_and_same_region:
  "(pt_x minB \<le> pt_x start \<and> pt_x start \<le> pt_x maxB \<and> pt_y minB \<le> pt_y start \<and> pt_y start \<le> pt_y maxB \<and>
    pt_x minB \<le> pt_x endPt \<and> pt_x endPt \<le> pt_x maxB \<and> pt_y minB \<le> pt_y endPt \<and> pt_y endPt \<le> pt_y maxB
      \<longrightarrow> clipLine start endPt minB maxB = Some (start, endPt))
   \<and> (computeRegion start minB maxB = computeRegion endPt minB maxB \<and> computeRegion start minB maxB \<noteq> 0
      \<longrightarrow> clipLine start endPt minB maxB = None)
   \<and> (pt_x start < pt_x minB \<and> pt_x endPt < pt_x minB \<and> pt_x minB \<le> pt_x maxB \<and>
      pt_y minB \<le> pt_y start \<and> pt_y start \<le> pt_y maxB \<and> pt_y minB \<le> pt_y endPt \<and> pt_y endPt \<le> pt_y maxB
      \<longrightarrow> clipLine start endPt minB maxB = None)"
proof (intro conjI impI)
  assume "pt_x minB \<le> pt_x start \<and> pt_x start \<le> pt_x maxB \<and> pt_y minB \<le> pt_y start \<and> pt_y start \<le> pt_y maxB \<and>
    pt_x minB \<le> pt_x endPt \<and> pt_x endPt \<le> pt_x maxB \<and> pt_y minB \<le> pt_y endPt \<and> pt_y endPt \<le> pt_y maxB"
  then have "computeRegion start minB maxB = 0" "computeRegion endPt minB maxB = 0"
    by (simp_all add: computeRegion_inside)
  then show "clipLine start endPt minB maxB = Some (start, endPt)"
    by (simp add: clipLine_def)
next
  assume "computeRegion start minB maxB = computeRegion endPt minB maxB \<and> computeRegion start minB maxB \<noteq> 0"
  then show "clipLine start endPt minB maxB = None"
    by (simp add: clipLine_def)
next
  assume "pt_x start < pt_x minB \<and> pt_x endPt < pt_x minB \<and> pt_x minB \<le> pt_x maxB \<and>
      pt_y minB \<le> pt_y start \<and> pt_y start \<le> pt_y maxB \<and> pt_y minB \<le> pt_y endPt \<and> pt_y endPt \<le> pt_y maxB"
  then have "computeRegion start minB maxB = 1" "computeRegion endPt minB maxB = 1"
    by (simp_all add: computeRegion_left)
  then show "clipLine start endPt minB maxB = None"
    by (simp add: clipLine_def)
qed

text \<open>
  C6. For a segment with both endpoints inside the rectangle \<open>clipLine\<close> returns the
  endpoints unchanged, and for a segment wholly within one excluded region, as with both
  endpoints strictly left of \<open>min.x\<close>, it should return \<open>null\<close>. The source fails the second
  half: the segment from (-8, -1) to (-4, 2), of length 5, lies left of the rectangle from
  (0, 0) to (10, 10), and its region codes 9 and 1 share the bit \<open>LEFT\<close>. The codes differ,
  so the trivial reject does not fire; the line of the segment meets the rectangle beyond
  its end, so both slab tests pass with \<open>tMin = 10\<close>; \<open>tMin\<close> and \<open>tMax\<close> are then clamped to
  the length, and the result is the end point twice, left of the rectangle, where the
  result should be \<open>null\<close>.
\<close>

theorem clipLine_left_beyond_end:
  "pt_x (Point_new (- 8) (- 1)) < pt_x (Point_new 0 0) \<and>
   pt_x (Point_new (- 4) 2) < pt_x (Point_new 0 0) \<and>
   computeRegion (Point_new (- 8) (- 1)) (Point_new 0 0) (Point_new 10 10) = 9 \<and>
   computeRegion (Point_new (- 4) 2) (Point_new 0 0) (Point_new 10 10) = 1 \<and>
   (9 :: int) AND 1 = LEFT \<and>
   Point_mag (Point_sub (Point_new (- 4) 2) (Point_new (- 8) (- 1))) = 5 \<and>
   clipLine (Point_new (- 8) (- 1)) (Point_new (- 4) 2) (Point_new 0 0) (Point_new 10 10)
     = Some (Point_new (- 4) 2, Point_new (- 4) 2) \<and>
   clipLine (Point_new (- 8) (- 1)) (Point_new (- 4) 2) (Point_new 0 0) (Point_new 10 10) \<noteq> None"
proof -
  have r: "computeRegion (Point_new (- 8) (- 1)) (Point_new 0 0) (Point_new 10 10) = 9"
     "computeRegion (Point_new (- 4) 2) (Point_new 0 0) (Point_new 10 10) = 1"
    by (simp_all add: computeRegion_def region_consts Point_new_def)
  have m: "Point_mag (Point_sub (Point_new (- 4) 2) (Point_new (- 8) (- 1))) = 5"
    by (simp add: Point_mag_def Point_sub_def Point_new_def sqrt_25)
  have sx: "slabCheckOnAxis (4 / 5) 0 10 (- 8) (0, Number_MAX_VALUE) = Some (10, 45 / 2)"
    using max_value_large by (simp add: slabCheckOnAxis_def epsilon_def Let_def)
  have sy: "slabCheckOnAxis (3 / 5) 0 10 (- 1) (10, 45 / 2) = Some (10, 55 / 3)"
    by (simp add: slabCheckOnAxis_def epsilon_def Let_def)
  have c: "clipLine (Point_new (- 8) (- 1)) (Point_new (- 4) 2) (Point_new 0 0) (Point_new 10 10)
     = Some (Point_new (- 4) 2, Point_new (- 4) 2)"
    by (simp add: clipLine_def r m Let_def epsilon_def)
       (simp add: Point_sub_def Point_div_def Point_add_def Point_mult_def Point_new_def sx sy
          Point_mag_def sqrt_25)
  have b: "(9 :: int) AND 1 = LEFT" by (simp add: region_consts)
  show ?thesis using r m c b by (simp add: Point_new_def)
qed

subsection \<open>The reverse query\<close>

lemma recorded_empty: "recorded Map.empty Map.empty"
  by (simp add: recorded_def)

lemma recorded_touch:
  assumes "recorded seen res"
  shows "recorded (seen(b \<mapsto> (case seen b of None \<Rightarrow> Map.empty | Some m \<Rightarrow> m))) res"
  using assms unfolding recorded_def by (fastforce split: option.splits)

lemma recorded_push:
  assumes "recorded seen res"
    and "(case seen b of None \<Rightarrow> Map.empty | Some m \<Rightarrow> m) f \<noteq> Some True"
  shows "recorded (seen(b \<mapsto> (case seen b of None \<Rightarrow> Map.empty | Some m \<Rightarrow> m)(f \<mapsto> True)))
                  (res(b \<mapsto> (case res b of None \<Rightarrow> [] | Some fs \<Rightarrow> fs) @ [f]))"
  unfolding recorded_def
proof (intro allI impI)
  fix b' fs
  assume h: "(res(b \<mapsto> (case res b of None \<Rightarrow> [] | Some fs \<Rightarrow> fs) @ [f])) b' = Some fs"
  show "distinct fs \<and> (\<forall>f' \<in> set fs. \<exists>m.
           (seen(b \<mapsto> (case seen b of None \<Rightarrow> Map.empty | Some m \<Rightarrow> m)(f \<mapsto> True))) b' = Some m \<and>
           m f' = Some True)"
  proof (cases "b' = b")
    case False
    with h assms(1) show ?thesis by (simp add: recorded_def)
  next
    case True
    show ?thesis
    proof (cases "res b")
      case None
      with h True show ?thesis by auto
    next
      case (Some old)
      with assms(1) have d: "distinct old"
        and s: "\<forall>f' \<in> set old. \<exists>m. seen b = Some m \<and> m f' = Some True"
        by (auto simp: recorded_def)
      from s assms(2) have "f \<notin> set old" by (auto split: option.splits)
      with d s h True Some show ?thesis by (auto split: option.splits)
    qed
  qed
qed

lemma featureLoop_recorded:
  "recorded (fst st) (snd st) \<Longrightarrow>
   recorded (fst (featureLoop pip query features st)) (snd (featureLoop pip query features st))"
proof (induction features arbitrary: st)
  case Nil
  then show ?case by simp
next
  case (Cons feature rest)
  obtain seen res where st: "st = (seen, res)" by (cases st)
  let ?b = "bucketInstanceId (qr_key feature)"
  let ?f = "featureIndex (qr_key feature)"
  let ?sob = "case seen ?b of None \<Rightarrow> Map.empty | Some m \<Rightarrow> m"
  from Cons.prems st have r0: "recorded seen res" by simp
  have r1: "recorded (seen(?b \<mapsto> ?sob)) res" using recorded_touch [OF r0] .
  let ?bbox = "[Point_new (qr_x1 feature) (qr_y1 feature), Point_new (qr_x2 feature) (qr_y1 feature),
                Point_new (qr_x2 feature) (qr_y2 feature), Point_new (qr_x1 feature) (qr_y2 feature)]"
  let ?skip = "(seen(?b \<mapsto> ?sob), res)"
  let ?push = "(seen(?b \<mapsto> ?sob(?f \<mapsto> True)),
                res(?b \<mapsto> (case res ?b of None \<Rightarrow> [] | Some fs \<Rightarrow> fs) @ [?f]))"
  have skip: "recorded (fst ?skip) (snd ?skip)" using r1 by simp
  show ?case
  proof (cases "?sob ?f = Some True \<or> \<not> pip query ?bbox")
    case True
    then have eq: "featureLoop pip query (feature # rest) st = featureLoop pip query rest ?skip"
      using st by (auto simp: Let_def)
    show ?thesis unfolding eq using Cons.IH [OF skip] .
  next
    case False
    then have eq: "featureLoop pip query (feature # rest) st = featureLoop pip query rest ?push"
      using st by (auto simp: Let_def)
    from False have "?sob ?f \<noteq> Some True" by simp
    from recorded_push [OF r0 this] have push: "recorded (fst ?push) (snd ?push)" by simp
    show ?thesis unfolding eq using Cons.IH [OF push] .
  qed
qed

text \<open>
  C8. \<open>queryRenderedSymbols\<close> returns the empty mapping when the query has no points or
  when the two grids hold no keys, whatever the grids would answer and whatever the
  polygon test is; and in every result, the features of a bucket are without duplicates.
\<close>

theorem queryRenderedSymbols_short_circuit_and_distinct:
  "(viewportQueryGeometry = [] \<or>
      (Grid_keysLength (grid ci) = 0 \<and> Grid_keysLength (ignoredGrid ci) = 0)
      \<longrightarrow> queryRenderedSymbols pip ci viewportQueryGeometry = Map.empty)
   \<and> (\<forall>b fs. queryRenderedSymbols pip ci viewportQueryGeometry b = Some fs \<longrightarrow> distinct fs)"
proof (cases viewportQueryGeometry)
  case Nil
  then show ?thesis by simp
next
  case (Cons pt rest)
  show ?thesis
  proof (cases "Grid_keysLength (grid ci) = 0 \<and> Grid_keysLength (ignoredGrid ci) = 0")
    case True
    with Cons show ?thesis by simp
  next
    case False
    have "\<And>q fs b l. snd (featureLoop pip q fs (Map.empty, Map.empty)) b = Some l \<Longrightarrow> distinct l"
      using featureLoop_recorded [of "(Map.empty, Map.empty)"] recorded_empty
      by (simp add: recorded_def)
    with Cons False show ?thesis
      by (auto simp: Let_def split: prod.splits)
  qed
qed

theorem queryRenderedSymbols_witness:
  "queryRenderedSymbols everyPolygon frameIndex3 [] = Map.empty \<and>
   Grid_keysLength (grid frameIndex) = 0 \<and> Grid_keysLength (ignoredGrid frameIndex) = 0 \<and>
   queryRenderedSymbols everyPolygon frameIndex [Point_new 0 0] = Map.empty \<and>
   queryRenderedSymbols everyPolygon frameIndex3 [Point_new (- 60) (- 60), Point_new (- 35) (- 35)] 1
     = Some [0] \<and>
   distinct [0 :: nat]"
proof -
  have k: "Grid_keysLength (grid frameIndex) = 0 \<and> Grid_keysLength (ignoredGrid frameIndex) = 0"
    by (simp add: Grid_keysLength_def frameIndex_def CollisionIndex_new_def Grid_new_def)
  have g: "entries (grid frameIndex3) =
             [\<lparr>entry_key = \<lparr>bucketInstanceId = 1, featureIndex = 0, collisionGroupID = 0\<rparr>,
               entry_shape = Box 40 40 60 60\<rparr>]"
    "entries (ignoredGrid frameIndex3) =
             [\<lparr>entry_key = \<lparr>bucketInstanceId = 1, featureIndex = 0, collisionGroupID = 0\<rparr>,
               entry_shape = Box 50 50 70 70\<rparr>]"
    by (simp_all add: frameIndex3_def frameIndex1_def frameIndex_def CollisionIndex_new_def
        Grid_insert_def Grid_new_def)
  have q: "queryRenderedSymbols everyPolygon frameIndex3
             [Point_new (- 60) (- 60), Point_new (- 35) (- 35)] 1 = Some [0]"
    by (simp add: Grid_keysLength_def Grid_query_def g Let_def Point_new_def viewportPadding_def
        toQueryResult_def everyPolygon_def)
  show ?thesis
    using queryRenderedSymbols_short_circuit_and_distinct [of "[]" frameIndex3 everyPolygon]
          queryRenderedSymbols_short_circuit_and_distinct [of "[Point_new 0 0]" frameIndex everyPolygon]
          queryRenderedSymbols_short_circuit_and_distinct
            [of "[Point_new (- 60) (- 60), Point_new (- 35) (- 35)]" frameIndex3 everyPolygon]
          k q
    by simp
qed

subsection \<open>Circle chains\<close>

lemma circleLoop_Cons:
  "circleLoop ci allowOverlap showCollisionCircles predicate (c # rest) (placed, cd, ig, eo) =
     (if \<not> allowOverlap \<and> circleHits ci predicate c \<and> \<not> showCollisionCircles
      then Inl \<lparr>circles = [], circles_offscreen = False\<rparr>
      else circleLoop ci allowOverlap showCollisionCircles predicate rest
             (placed @ circleTuple c, cd \<or> (\<not> allowOverlap \<and> circleHits ci predicate c),
              ig \<or> circleInGrid ci c, eo \<and> circleOffscreen ci c))"
  by (auto simp: Let_def circleTuple_def circleHits_def circleOffscreen_def circleInGrid_def)

lemma circleLoop_early_exit:
  "\<exists>c \<in> set cs. circleHits ci predicate c \<Longrightarrow>
   circleLoop ci False False predicate cs st = Inl \<lparr>circles = [], circles_offscreen = False\<rparr>"
proof (induction cs arbitrary: st)
  case Nil
  then show ?case by simp
next
  case (Cons c cs)
  obtain placed cd ig eo where st: "st = (placed, cd, ig, eo)" by (cases st)
  show ?case
  proof (cases "circleHits ci predicate c")
    case True
    then show ?thesis unfolding st circleLoop_Cons by simp
  next
    case False
    with Cons.prems have "\<exists>c \<in> set cs. circleHits ci predicate c" by simp
    from Cons.IH [OF this] False show ?thesis unfolding st circleLoop_Cons by simp
  qed
qed

lemma circleLoop_scan:
  "allowOverlap \<or> showCollisionCircles \<or> \<not> (\<exists>c \<in> set cs. circleHits ci predicate c) \<Longrightarrow>
   circleLoop ci allowOverlap showCollisionCircles predicate cs (placed, cd, ig, eo) =
     Inr (placed @ concat (map circleTuple cs),
          cd \<or> (\<not> allowOverlap \<and> (\<exists>c \<in> set cs. circleHits ci predicate c)),
          ig \<or> (\<exists>c \<in> set cs. circleInGrid ci c),
          eo \<and> (\<forall>c \<in> set cs. circleOffscreen ci c))"
proof (induction cs arbitrary: placed cd ig eo)
  case Nil
  then show ?case by simp
next
  case (Cons c cs)
  from Cons.prems
  have "allowOverlap \<or> showCollisionCircles \<or> \<not> (\<exists>c \<in> set cs. circleHits ci predicate c)"
    by auto
  from Cons.IH [OF this] Cons.prems show ?case
    unfolding circleLoop_Cons by auto
qed

lemma placeSegment_positive:
  assumes "rnd (2 * radius) \<noteq> 0"
  shows "placeSegment rnd radius (cs, l) (s, e) =
     Some (cs @
           (if (case l of None \<Rightarrow> True | Some p \<Rightarrow> Point_dist_rnd rnd p s \<ge> rnd (2 * radius))
            then [\<lparr>circle_point = s, circle_radius = radius\<rparr>] else []) @
           segmentCircles rnd radius s e, Some e)"
  using assms
  by (simp add: placeSegment_def Let_def segmentCircles_def interiorCentre_def circlesInSegment_def)

lemma placeSegment_grows:
  "placeSegment rnd radius st cl = Some st' \<Longrightarrow> set (fst st) \<subseteq> set (fst st')"
  by (cases st) (auto simp: placeSegment_def Let_def split: if_splits)

lemma segmentLoop_grows:
  "segmentLoop rnd mn mx radius path st = Some st' \<Longrightarrow> set (fst st) \<subseteq> set (fst st')"
proof (induction rnd mn mx radius path st arbitrary: st' rule: segmentLoop.induct)
  case (1 rnd mn mx radius p q rest st)
  show ?case
  proof (cases "clipLine p q mn mx")
    case None
    with 1 show ?thesis by simp
  next
    case (Some cl)
    with "1.prems" obtain st1 where p: "placeSegment rnd radius st cl = Some st1"
      and l: "segmentLoop rnd mn mx radius (q # rest) st1 = Some st'"
      by (auto split: option.splits)
    from placeSegment_grows [OF p] "1.IH"(2) [OF Some p l] show ?thesis by blast
  qed
qed simp_all

lemma placeSegment_contains:
  "rnd (2 * radius) \<noteq> 0 \<Longrightarrow> placeSegment rnd radius st (s, e) = Some st1 \<Longrightarrow>
   set (segmentCircles rnd radius s e) \<subseteq> set (fst st1)"
  by (cases st) (auto simp: placeSegment_positive)

lemma segmentLoop_segment:
  "rnd (2 * radius) \<noteq> 0 \<Longrightarrow> segmentLoop rnd mn mx radius path st = Some st' \<Longrightarrow> j + 1 < length path \<Longrightarrow>
   clipLine (path ! j) (path ! (j + 1)) mn mx = Some (s, e) \<Longrightarrow>
   set (segmentCircles rnd radius s e) \<subseteq> set (fst st')"
proof (induction rnd mn mx radius path st arbitrary: st' j rule: segmentLoop.induct)
  case (1 rnd mn mx radius p q rest st)
  show ?case
  proof (cases j)
    case 0
    with "1.prems" have c: "clipLine p q mn mx = Some (s, e)" by simp
    with "1.prems" obtain st1 where p: "placeSegment rnd radius st (s, e) = Some st1"
      and l: "segmentLoop rnd mn mx radius (q # rest) st1 = Some st'"
      by (auto split: option.splits)
    from placeSegment_contains [OF "1.prems"(1) p] segmentLoop_grows [OF l]
    show ?thesis by blast
  next
    case (Suc j')
    with "1.prems" have len: "j' + 1 < length (q # rest)"
      and c: "clipLine ((q # rest) ! j') ((q # rest) ! (j' + 1)) mn mx = Some (s, e)"
      by simp_all
    show ?thesis
    proof (cases "clipLine p q mn mx")
      case None
      with "1.prems" have "segmentLoop rnd mn mx radius (q # rest) st = Some st'" by simp
      from "1.IH"(1) [OF None "1.prems"(1) this len c] show ?thesis .
    next
      case (Some cl)
      with "1.prems" obtain st1 where p: "placeSegment rnd radius st cl = Some st1"
        and l: "segmentLoop rnd mn mx radius (q # rest) st1 = Some st'"
        by (auto split: option.splits)
      from "1.IH"(2) [OF Some p "1.prems"(1) l len c] show ?thesis .
    qed
  qed
qed simp_all

lemma accepted_chain:
  assumes "placeCollisionCircles rnd project placeFirstAndLastGlyph ci collisionCircles allowOverlap scale
             textPixelRatio symbol fontSize posMatrix labelPlaneMatrix showCollisionCircles pitchWithMap
             predicate = Some res"
    and "circles res \<noteq> []"
    and "projectAnchor ci posMatrix (anchorX symbol) (anchorY symbol) = Some pa"
    and "placeFirstAndLastGlyph (fontSize * ap_perspectiveRatio pa / 24)
           (lineOffsetX symbol * (fontSize * ap_perspectiveRatio pa / 24))
           (lineOffsetY symbol * (fontSize * ap_perspectiveRatio pa / 24))
           (project (Point_new (anchorX symbol) (anchorY symbol)) labelPlaneMatrix)
           (Point_new (anchorX symbol) (anchorY symbol)) = Some fl"
  shows "\<exists>cs. chainCircles rnd ci (rnd (10 * ap_perspectiveRatio pa)) fl = Some cs \<and>
              circles res = concat (map circleTuple cs)"
proof (cases "chainCircles rnd ci (rnd (10 * ap_perspectiveRatio pa)) fl")
  case None
  with assms show ?thesis by (simp add: placeCollisionCircles_def Let_def)
next
  case (Some cs)
  show ?thesis
  proof (cases "allowOverlap \<or> showCollisionCircles \<or> \<not> (\<exists>c \<in> set cs. circleHits ci predicate c)")
    case True
    from assms Some circleLoop_scan [OF True, of "[]" False False True]
    show ?thesis
      by (auto simp: placeCollisionCircles_def Let_def split: if_splits)
  next
    case False
    then have "\<exists>c \<in> set cs. circleHits ci predicate c" "allowOverlap = False" "showCollisionCircles = False"
      by auto
    with assms Some circleLoop_early_exit [of cs ci predicate "([], False, False, True)"]
    show ?thesis
      by (auto simp: placeCollisionCircles_def Let_def)
  qed
qed

lemma chainCircles_segment:
  assumes "rnd (2 * radius) \<noteq> 0" and "chainCircles rnd ci radius fl = Some cs"
    and "path = rev (tl (first_path fl)) @ tl (last_path fl)"
    and "j + 1 < length path"
    and "clipLine (path ! j) (path ! (j + 1)) (Point_new 0 0)
           (Point_new (width (transform ci)) (height (transform ci))) = Some (s, e)"
  shows "set (segmentCircles rnd radius s e) \<subseteq> set cs"
proof -
  from assms(2,3) obtain st' where l: "segmentLoop rnd (Point_new 0 0)
           (Point_new (width (transform ci)) (height (transform ci))) radius path ([], None) = Some st'"
    and cs: "cs = fst st'"
    by (auto simp: chainCircles_def Let_def)
  from segmentLoop_segment [OF assms(1) l assms(4,5)] cs show ?thesis by simp
qed

text \<open>
  The rounding of the circles of a segment. Under the standard model a rounded result
  differs from the exact one by at most \<open>unitRoundoff\<close> times it; the rounded length of
  the segment is at least \<open>(1 - unitRoundoff)^3\<close> times its length, which bounds the length by the number
  of steps times \<open>2 * radius\<close>, and each coordinate of a centre is within
  \<open>unitRoundoff * (\<bar>a\<bar> + G * \<bar>D\<bar>)\<close> of the point \<open>a + D * k / N\<close> of the even division.
\<close>

lemma unitRoundoff_bounds: "0 < unitRoundoff" "unitRoundoff < 1"
  by (simp_all add: unitRoundoff_def)

lemma rnd_err: "standardRounding rnd \<Longrightarrow> \<bar>rnd x - x\<bar> \<le> unitRoundoff * \<bar>x\<bar>"
  by (simp add: standardRounding_def)

lemma rnd_zero: "standardRounding rnd \<Longrightarrow> rnd 0 = 0"
  using rnd_err [of rnd 0] by simp

lemma rnd_abs_le: "standardRounding rnd \<Longrightarrow> \<bar>rnd x\<bar> \<le> (1 + unitRoundoff) * \<bar>x\<bar>"
  using rnd_err [of rnd x] by (simp add: algebra_simps)

lemma rnd_lower: "standardRounding rnd \<Longrightarrow> 0 \<le> x \<Longrightarrow> (1 - unitRoundoff) * x \<le> rnd x"
  using rnd_err [of rnd x] by (simp add: algebra_simps)

lemma rnd_upper: "standardRounding rnd \<Longrightarrow> 0 \<le> x \<Longrightarrow> rnd x \<le> (1 + unitRoundoff) * x"
  using rnd_err [of rnd x] by (simp add: algebra_simps)

lemma rnd_nonneg: "standardRounding rnd \<Longrightarrow> 0 \<le> x \<Longrightarrow> 0 \<le> rnd x"
proof -
  assume R: "standardRounding rnd" and x: "0 \<le> x"
  have "0 \<le> (1 - unitRoundoff) * x" using x unitRoundoff_bounds by simp
  with rnd_lower [OF R x] show ?thesis by simp
qed

lemma rnd_pos: "standardRounding rnd \<Longrightarrow> 0 < x \<Longrightarrow> 0 < rnd x"
proof -
  assume R: "standardRounding rnd" and x: "0 < x"
  have "0 < (1 - unitRoundoff) * x" using x unitRoundoff_bounds by simp
  with rnd_lower [OF R] x show ?thesis by (metis less_le_trans less_imp_le)
qed

lemma rnd_sq_lower:
  assumes R: "standardRounding rnd"
  shows "(1 - unitRoundoff) ^ 2 * (x * x) \<le> rnd x * rnd x"
proof -
  have a: "\<bar>x\<bar> - unitRoundoff * \<bar>x\<bar> \<le> \<bar>rnd x\<bar>" using rnd_err [OF R, of x] by simp
  have b: "0 \<le> (1 - unitRoundoff) * \<bar>x\<bar>" using unitRoundoff_bounds by simp
  from a have "(1 - unitRoundoff) * \<bar>x\<bar> \<le> \<bar>rnd x\<bar>" by (simp add: algebra_simps)
  with b have "((1 - unitRoundoff) * \<bar>x\<bar>) * ((1 - unitRoundoff) * \<bar>x\<bar>) \<le> \<bar>rnd x\<bar> * \<bar>rnd x\<bar>"
    by (intro mult_mono) simp_all
  then show ?thesis by (simp add: power2_eq_square algebra_simps)
qed


lemma mag_lower:
  assumes R: "standardRounding rnd"
  shows "(1 - unitRoundoff) ^ 3 * sqrt (Dx * Dx + Dy * Dy)
           \<le> rnd (sqrt (rnd (rnd (rnd Dx * rnd Dx) + rnd (rnd Dy * rnd Dy))))"
    and "0 \<le> rnd (sqrt (rnd (rnd (rnd Dx * rnd Dx) + rnd (rnd Dy * rnd Dy))))"
proof -
  define w where "w = 1 - unitRoundoff"
  have w: "0 < w" "0 \<le> w" using unitRoundoff_bounds by (simp_all add: w_def)
  define a where "a = rnd Dx * rnd Dx"
  define b where "b = rnd Dy * rnd Dy"
  define S where "S = rnd (rnd a + rnd b)"
  define L where "L = sqrt (Dx * Dx + Dy * Dy)"
  have ab: "0 \<le> a" "0 \<le> b" by (simp_all add: a_def b_def)
  have ra: "w * a \<le> rnd a" and rb: "w * b \<le> rnd b"
    using rnd_lower [OF R ab(1)] rnd_lower [OF R ab(2)] by (simp_all add: w_def)
  have rab: "0 \<le> rnd a + rnd b" using rnd_nonneg [OF R ab(1)] rnd_nonneg [OF R ab(2)] by simp
  have s1: "w * (rnd a + rnd b) \<le> S" using rnd_lower [OF R rab] by (simp add: S_def w_def)
  have "w * (w * (a + b)) \<le> w * (rnd a + rnd b)"
    using ra rb w by (intro mult_left_mono) (simp_all add: algebra_simps)
  with s1 have s2: "w * (w * (a + b)) \<le> S" by simp
  have a2: "w ^ 2 * (Dx * Dx) \<le> a" and b2: "w ^ 2 * (Dy * Dy) \<le> b"
    using rnd_sq_lower [OF R, of Dx] rnd_sq_lower [OF R, of Dy] by (simp_all add: a_def b_def w_def)
  then have "w ^ 2 * (Dx * Dx + Dy * Dy) \<le> a + b" by (simp add: algebra_simps)
  then have "w * (w * (w ^ 2 * (Dx * Dx + Dy * Dy))) \<le> w * (w * (a + b))"
    using w by (intro mult_left_mono) simp_all
  with s2 have "w * (w * (w ^ 2 * (Dx * Dx + Dy * Dy))) \<le> S" by simp
  then have "(w ^ 2 * L) ^ 2 \<le> S"
    by (simp add: L_def power2_eq_square algebra_simps)
  then have "sqrt ((w ^ 2 * L) ^ 2) \<le> sqrt S" by (rule real_sqrt_le_mono)
  moreover have "0 \<le> w ^ 2 * L" by (simp add: L_def)
  ultimately have s3: "w ^ 2 * L \<le> sqrt S" by simp
  have S0: "0 \<le> S" unfolding S_def by (rule rnd_nonneg [OF R rab])
  then have ss: "0 \<le> sqrt S" by simp
  have s4: "w * sqrt S \<le> rnd (sqrt S)" using rnd_lower [OF R ss] by (simp add: w_def)
  have "w * (w ^ 2 * L) \<le> w * sqrt S" using s3 w by (intro mult_left_mono) simp_all
  with s4 have "w ^ 3 * L \<le> rnd (sqrt S)" by (simp add: power3_eq_cube power2_eq_square algebra_simps)
  then show "(1 - unitRoundoff) ^ 3 * sqrt (Dx * Dx + Dy * Dy)
           \<le> rnd (sqrt (rnd (rnd (rnd Dx * rnd Dx) + rnd (rnd Dy * rnd Dy))))"
    by (simp add: w_def L_def S_def a_def b_def)
  show "0 \<le> rnd (sqrt (rnd (rnd (rnd Dx * rnd Dx) + rnd (rnd Dy * rnd Dy))))"
    using rnd_nonneg [OF R ss] by (simp add: S_def a_def b_def)
qed

lemma segment_count:
  assumes R: "standardRounding rnd" and r: "0 < radius"
  shows "- 1 \<le> circlesInSegment rnd radius s e"
    and "Point_dist s e \<le> of_int (circlesInSegment rnd radius s e + 1) *
            (2 * radius * (1 + unitRoundoff) / (1 - unitRoundoff) ^ 4)"
proof -
  define w where "w = 1 - unitRoundoff"
  have w: "0 < w" "0 \<le> w" using unitRoundoff_bounds by (simp_all add: w_def)
  define Dx where "Dx = pt_x e - pt_x s"
  define Dy where "Dy = pt_y e - pt_y s"
  define L where "L = sqrt (Dx * Dx + Dy * Dy)"
  define m where "m = rnd (sqrt (rnd (rnd (rnd Dx * rnd Dx) + rnd (rnd Dy * rnd Dy))))"
  define d where "d = rnd (2 * radius)"
  define q where "q = rnd (m / d)"
  define N where "N = \<lceil>q\<rceil>"
  have n: "circlesInSegment rnd radius s e = N - 1"
    by (simp add: circlesInSegment_def N_def q_def m_def d_def Point_mag_rnd_def Point_sub_rnd_def
        Point_new_def Dx_def Dy_def)
  have Ld: "Point_dist s e = L"
    by (simp add: Point_dist_def Let_def L_def Dx_def Dy_def)
  have m0: "0 \<le> m" and mL: "w ^ 3 * L \<le> m"
    using mag_lower [OF R, of Dx Dy] by (simp_all add: m_def w_def L_def)
  have d0: "0 < d" unfolding d_def using rnd_pos [OF R] r by simp
  have dr: "d \<le> (1 + unitRoundoff) * (2 * radius)"
    unfolding d_def using rnd_upper [OF R, of "2 * radius"] r by simp
  have md: "0 \<le> m / d" using m0 d0 by simp
  have q0: "0 \<le> q" unfolding q_def by (rule rnd_nonneg [OF R md])
  have ql: "w * (m / d) \<le> q" unfolding q_def w_def by (rule rnd_lower [OF R md])
  have qN: "q \<le> of_int N" by (simp add: N_def)
  have N0: "0 \<le> N" using q0 by (simp add: N_def)
  then show "- 1 \<le> circlesInSegment rnd radius s e" by (simp add: n)
  have "w * m \<le> q * d" using ql d0 by (simp add: field_simps)
  also have "q * d \<le> of_int N * ((1 + unitRoundoff) * (2 * radius))"
    using qN dr q0 d0 N0 by (intro mult_mono) simp_all
  finally have wm: "w * m \<le> of_int N * ((1 + unitRoundoff) * (2 * radius))" .
  have "w * (w ^ 3 * L) \<le> w * m" using mL w by (intro mult_left_mono) simp_all
  with wm have "w ^ 4 * L \<le> of_int N * ((1 + unitRoundoff) * (2 * radius))"
    by (simp add: power4_eq_xxxx power3_eq_cube algebra_simps)
  then have "L \<le> of_int N * ((1 + unitRoundoff) * (2 * radius)) / w ^ 4"
    using w by (simp add: field_simps)
  then show "Point_dist s e \<le> of_int (circlesInSegment rnd radius s e + 1) *
            (2 * radius * (1 + unitRoundoff) / (1 - unitRoundoff) ^ 4)"
    by (simp add: Ld n w_def algebra_simps)
qed


lemma coord_error:
  assumes R: "standardRounding rnd" and N: "1 \<le> N" and k: "0 \<le> k" "k \<le> N"
  shows "\<bar>rnd (a + rnd (rnd (rnd D / N) * k)) - (a + D * k / N)\<bar>
           \<le> unitRoundoff * (\<bar>a\<bar> + ((1 + unitRoundoff) ^ 3 + (1 + unitRoundoff) ^ 2 + (1 + unitRoundoff) + 1) * \<bar>D\<bar>)"
proof -
  define u where "u = unitRoundoff"
  define v where "v = 1 + u"
  have u: "0 \<le> u" and v: "0 \<le> v" using unitRoundoff_bounds by (simp_all add: u_def v_def)
  define A where "A = \<bar>D\<bar>"
  define X1 where "X1 = v * A"
  define X2 where "X2 = v * X1"
  define X3 where "X3 = v * X2"
  define dx where "dx = rnd D"
  define c where "c = rnd (dx / N)"
  define t where "t = rnd (c * k)"
  define z where "z = a + t"
  define f where "f = k / N"
  have f: "0 \<le> f" "f \<le> 1" using N k by (simp_all add: f_def)
  have A0: "0 \<le> A" by (simp add: A_def)
  have X10: "0 \<le> X1" using v A0 by (simp add: X1_def)
  have e1: "\<bar>dx - D\<bar> \<le> u * A" unfolding dx_def u_def A_def by (rule rnd_err [OF R])
  have b1: "\<bar>dx\<bar> \<le> X1" unfolding dx_def X1_def v_def u_def A_def by (rule rnd_abs_le [OF R])
  have e2: "\<bar>c - dx / N\<bar> \<le> u * \<bar>dx / N\<bar>" unfolding c_def u_def by (rule rnd_err [OF R])
  have b2: "\<bar>c\<bar> \<le> v * \<bar>dx / N\<bar>" unfolding c_def v_def u_def by (rule rnd_abs_le [OF R])
  have e3: "\<bar>t - c * k\<bar> \<le> u * \<bar>c * k\<bar>" unfolding t_def u_def by (rule rnd_err [OF R])
  have b3: "\<bar>t\<bar> \<le> v * \<bar>c * k\<bar>" unfolding t_def v_def u_def by (rule rnd_abs_le [OF R])
  have e4: "\<bar>rnd z - z\<bar> \<le> u * \<bar>z\<bar>" unfolding u_def by (rule rnd_err [OF R])
  have dxf: "\<bar>dx / N\<bar> * k = \<bar>dx\<bar> * f" using N k by (simp add: f_def abs_divide)
  have dxf1: "\<bar>dx\<bar> * f \<le> \<bar>dx\<bar>" using f by (intro mult_left_le) simp_all
  have ck: "\<bar>c * k\<bar> \<le> X2"
  proof -
    have "\<bar>c * k\<bar> = \<bar>c\<bar> * k" using k by (simp add: abs_mult)
    also have "\<dots> \<le> (v * \<bar>dx / N\<bar>) * k" using b2 k by (intro mult_right_mono) simp_all
    also have "\<dots> = v * (\<bar>dx\<bar> * f)" by (simp only: mult.assoc dxf)
    also have "\<dots> \<le> v * \<bar>dx\<bar>" using dxf1 v by (intro mult_left_mono) simp_all
    also have "\<dots> \<le> v * X1" using b1 v by (intro mult_left_mono) simp_all
    finally show ?thesis by (simp add: X2_def)
  qed
  have tb: "\<bar>t\<bar> \<le> X3"
  proof -
    have "v * \<bar>c * k\<bar> \<le> v * X2" using ck v by (intro mult_left_mono) simp_all
    with b3 show ?thesis by (simp add: X3_def)
  qed
  have p1: "\<bar>rnd z - z\<bar> \<le> u * \<bar>a\<bar> + u * X3"
  proof -
    have "\<bar>z\<bar> \<le> \<bar>a\<bar> + X3" using tb by (simp add: z_def)
    then have "u * \<bar>z\<bar> \<le> u * (\<bar>a\<bar> + X3)" using u by (intro mult_left_mono) simp_all
    with e4 show ?thesis by (simp add: algebra_simps)
  qed
  have p2: "\<bar>t - c * k\<bar> \<le> u * X2"
  proof -
    have "u * \<bar>c * k\<bar> \<le> u * X2" using ck u by (intro mult_left_mono) simp_all
    with e3 show ?thesis by simp
  qed
  have p3: "\<bar>c * k - dx * f\<bar> \<le> u * X1"
  proof -
    have "c * k - dx * f = (c - dx / N) * k" using N by (simp add: f_def algebra_simps)
    then have "\<bar>c * k - dx * f\<bar> = \<bar>c - dx / N\<bar> * k" using k by (simp add: abs_mult)
    also have "\<dots> \<le> (u * \<bar>dx / N\<bar>) * k" using e2 k by (intro mult_right_mono) simp_all
    also have "\<dots> = u * (\<bar>dx\<bar> * f)" by (simp only: mult.assoc dxf)
    also have "\<dots> \<le> u * \<bar>dx\<bar>" using dxf1 u by (intro mult_left_mono) simp_all
    also have "\<dots> \<le> u * X1" using b1 u by (intro mult_left_mono) simp_all
    finally show ?thesis .
  qed
  have p4: "\<bar>dx * f - D * f\<bar> \<le> u * A"
  proof -
    have "dx * f - D * f = (dx - D) * f" by (simp add: algebra_simps)
    then have "\<bar>dx * f - D * f\<bar> = \<bar>dx - D\<bar> * f" using f by (simp add: abs_mult)
    also have "\<dots> \<le> \<bar>dx - D\<bar>" using f by (intro mult_left_le) simp_all
    also have "\<dots> \<le> u * A" by (rule e1)
    finally show ?thesis .
  qed
  have tri: "\<bar>rnd z - (a + D * f)\<bar> \<le> u * \<bar>a\<bar> + u * X3 + u * X2 + u * X1 + u * A"
    using p1 p2 p3 p4 by (simp add: z_def)
  have rhs: "u * (\<bar>a\<bar> + (v ^ 3 + v ^ 2 + v + 1) * A) = u * \<bar>a\<bar> + u * X3 + u * X2 + u * X1 + u * A"
    by (simp add: X3_def X2_def X1_def power3_eq_cube power2_eq_square algebra_simps)
  from tri rhs have "\<bar>rnd z - (a + D * f)\<bar> \<le> u * (\<bar>a\<bar> + (v ^ 3 + v ^ 2 + v + 1) * A)"
    by simp
  from this [unfolded z_def t_def c_def dx_def f_def A_def v_def u_def] show ?thesis by simp
qed

lemma dist_error:
  assumes "\<bar>px - X1\<bar> \<le> ex" "\<bar>qx - X2\<bar> \<le> ex" "\<bar>py - Y1\<bar> \<le> ey" "\<bar>qy - Y2\<bar> \<le> ey"
    and "sqrt ((X2 - X1) * (X2 - X1) + (Y2 - Y1) * (Y2 - Y1)) \<le> B"
  shows "sqrt ((qx - px) * (qx - px) + (qy - py) * (qy - py)) \<le> B + 2 * ex + 2 * ey"
proof -
  define c where "c = (qx - X2) - (px - X1)"
  define d where "d = (qy - Y2) - (py - Y1)"
  have c: "\<bar>c\<bar> \<le> 2 * ex" and d: "\<bar>d\<bar> \<le> 2 * ey" using assms by (simp_all add: c_def d_def)
  have "sqrt ((qx - px) * (qx - px) + (qy - py) * (qy - py))
          = sqrt (((X2 - X1) + c)\<^sup>2 + ((Y2 - Y1) + d)\<^sup>2)"
    by (simp add: c_def d_def power2_eq_square)
  also have "\<dots> \<le> sqrt ((X2 - X1)\<^sup>2 + (Y2 - Y1)\<^sup>2) + sqrt (c\<^sup>2 + d\<^sup>2)"
    by (rule real_sqrt_sum_squares_triangle_ineq)
  also have "\<dots> \<le> B + (\<bar>c\<bar> + \<bar>d\<bar>)"
    using assms(5) sqrt_sum_squares_le_sum_abs [of c d] by (simp add: power2_eq_square)
  finally show ?thesis using c d by simp
qed


lemma centre_error:
  assumes R: "standardRounding rnd"
    and k: "0 \<le> k" "k \<le> circlesInSegment rnd radius s e + 1"
  shows "\<bar>pt_x (segmentCentre rnd radius s e k) -
            (pt_x s + (pt_x e - pt_x s) * of_int k / of_int (circlesInSegment rnd radius s e + 1))\<bar>
           \<le> unitRoundoff * (\<bar>pt_x s\<bar> +
                ((1 + unitRoundoff) ^ 3 + (1 + unitRoundoff) ^ 2 + (1 + unitRoundoff) + 1) * \<bar>pt_x e - pt_x s\<bar>)"
    (is "?ex \<le> ?bx")
    and "\<bar>pt_y (segmentCentre rnd radius s e k) -
            (pt_y s + (pt_y e - pt_y s) * of_int k / of_int (circlesInSegment rnd radius s e + 1))\<bar>
           \<le> unitRoundoff * (\<bar>pt_y s\<bar> +
                ((1 + unitRoundoff) ^ 3 + (1 + unitRoundoff) ^ 2 + (1 + unitRoundoff) + 1) * \<bar>pt_y e - pt_y s\<bar>)"
    (is "?ey \<le> ?by")
proof -
  define n where "n = circlesInSegment rnd radius s e"
  have bx: "0 \<le> ?bx" and "by": "0 \<le> ?by" using unitRoundoff_bounds by simp_all
  have "k = 0 \<or> (1 \<le> k \<and> k \<le> n) \<or> (1 \<le> k \<and> k = n + 1)"
    using k unfolding n_def by linarith
  then consider "k = 0" | "1 \<le> k" "k \<le> n" | "1 \<le> k" "k = n + 1" by blast
  then have "?ex \<le> ?bx \<and> ?ey \<le> ?by"
  proof cases
    case 1
    with bx "by" show ?thesis by (simp add: segmentCentre_def)
  next
    case 2
    then have N: "(1::real) \<le> of_int (n + 1)" and k0: "(0::real) \<le> of_int k"
      and kN: "(of_int k :: real) \<le> of_int (n + 1)" by simp_all
    from 2 have c: "segmentCentre rnd radius s e k = interiorCentre rnd radius s e k"
      by (simp add: segmentCentre_def n_def)
    show ?thesis
      unfolding c
      using coord_error [OF R N k0 kN, of "pt_x s" "pt_x e - pt_x s"]
            coord_error [OF R N k0 kN, of "pt_y s" "pt_y e - pt_y s"]
      by (simp add: interiorCentre_def Point_add_rnd_def Point_mult_rnd_def Point_div_rnd_def
          Point_sub_rnd_def Point_new_def n_def)
  next
    case 3
    then have c: "segmentCentre rnd radius s e k = e" by (simp add: segmentCentre_def n_def)
    from 3 have "(of_int k :: real) \<noteq> 0" "circlesInSegment rnd radius s e + 1 = k"
      by (simp_all add: n_def)
    with bx "by" show ?thesis unfolding c by simp
  qed
  then show "?ex \<le> ?bx" "?ey \<le> ?by" by simp_all
qed

lemma segment_spacing:
  assumes R: "standardRounding rnd" and r: "0 < radius"
  shows "- 1 \<le> circlesInSegment rnd radius s e \<and>
         segmentCentre rnd radius s e 0 = s \<and>
         segmentCentre rnd radius s e (circlesInSegment rnd radius s e + 1) = e \<and>
         (\<forall>k \<in> {0..circlesInSegment rnd radius s e}.
            Point_dist (segmentCentre rnd radius s e k) (segmentCentre rnd radius s e (k + 1))
              \<le> spacingBound radius s e)"
proof -
  define n where "n = circlesInSegment rnd radius s e"
  define B where "B = 2 * radius * (1 + unitRoundoff) / (1 - unitRoundoff) ^ 4"
  define G where "G = (1 + unitRoundoff) ^ 3 + (1 + unitRoundoff) ^ 2 + (1 + unitRoundoff) + 1"
  define Dx where "Dx = pt_x e - pt_x s"
  define Dy where "Dy = pt_y e - pt_y s"
  have n1: "- 1 \<le> n" and L: "Point_dist s e \<le> of_int (n + 1) * B"
    using segment_count [OF R r, of s e] by (simp_all add: n_def B_def)
  have z: "segmentCentre rnd radius s e 0 = s" by (simp add: segmentCentre_def)
  have l: "segmentCentre rnd radius s e (n + 1) = e"
  proof (cases "n = - 1")
    case True
    with L have "sqrt (Dx * Dx + Dy * Dy) \<le> 0" by (simp add: Point_dist_def Let_def Dx_def Dy_def)
    then have "Dx * Dx + Dy * Dy \<le> 0" by simp
    moreover have "0 \<le> Dx * Dx" "0 \<le> Dy * Dy" by simp_all
    ultimately have "Dx * Dx = 0" "Dy * Dy = 0" by linarith+
    then have "s = e" by (simp add: Dx_def Dy_def)
    with True show ?thesis by (simp add: segmentCentre_def)
  next
    case False
    with n1 show ?thesis by (simp add: segmentCentre_def n_def)
  qed
  have sp: "Point_dist (segmentCentre rnd radius s e k) (segmentCentre rnd radius s e (k + 1))
              \<le> spacingBound radius s e" if k: "k \<in> {0..n}" for k
  proof -
    from k have k0: "0 \<le> k" and k1: "k \<le> circlesInSegment rnd radius s e + 1"
      and k2: "0 \<le> k + 1" and k3: "k + 1 \<le> circlesInSegment rnd radius s e + 1"
      and N: "(0::real) < of_int (n + 1)"
      by (simp_all add: n_def)
    define N where "N = (of_int (n + 1) :: real)"
    have N0: "0 < N" using k by (simp add: N_def)
    have step: "sqrt (((pt_x s + Dx * of_int (k + 1) / N) - (pt_x s + Dx * of_int k / N)) *
                      ((pt_x s + Dx * of_int (k + 1) / N) - (pt_x s + Dx * of_int k / N)) +
                      ((pt_y s + Dy * of_int (k + 1) / N) - (pt_y s + Dy * of_int k / N)) *
                      ((pt_y s + Dy * of_int (k + 1) / N) - (pt_y s + Dy * of_int k / N))) \<le> B"
    proof -
      have a: "(pt_x s + Dx * of_int (k + 1) / N) - (pt_x s + Dx * of_int k / N) = Dx / N"
        and b: "(pt_y s + Dy * of_int (k + 1) / N) - (pt_y s + Dy * of_int k / N) = Dy / N"
        by (simp_all add: algebra_simps add_divide_distrib)
      have "Dx / N * (Dx / N) + Dy / N * (Dy / N) = (Dx * Dx + Dy * Dy) / (N * N)"
        by (simp add: add_divide_distrib)
      then have "sqrt (Dx / N * (Dx / N) + Dy / N * (Dy / N)) = sqrt (Dx * Dx + Dy * Dy) / N"
        using N0 by (simp add: real_sqrt_divide)
      also have "\<dots> \<le> B"
        using L N0 by (simp add: Point_dist_def Let_def Dx_def Dy_def N_def field_simps)
      finally show ?thesis unfolding a b .
    qed
    from dist_error [OF centre_error(1) [OF R k0 k1] centre_error(1) [OF R k2 k3]
        centre_error(2) [OF R k0 k1] centre_error(2) [OF R k2 k3],
        folded Dx_def Dy_def n_def N_def, OF step]
    show ?thesis
      by (simp add: Point_dist_def Let_def spacingBound_def B_def Dx_def Dy_def algebra_simps)
  qed
  from n1 z l sp show ?thesis by (simp add: n_def)
qed

lemma sqrt_1600: "sqrt 1600 = 40"
  by (rule real_sqrt_unique) simp_all

lemma frameIndex2_fields:
  "width (transform frameIndex2) = 800" "height (transform frameIndex2) = 600"
  "cameraToCenterDistance (transform frameIndex2) = 1"
  "gridRightBoundary frameIndex2 = 1000" "gridBottomBoundary frameIndex2 = 800"
  "screenRightBoundary frameIndex2 = 900" "screenBottomBoundary frameIndex2 = 700"
  "entries (grid frameIndex2) =
     [entryOfBox [40, 40, 60, 60] 1 0 0, entryOfBox [200, 200, 220, 220] 2 0 1]"
  by (simp_all add: frameIndex2_def frameIndex1_def frameIndex_def CollisionIndex_new_def
      viewportPadding_def Grid_insert_def Grid_new_def entryOfBox_def)

lemma example_clip:
  "clipLine (Point_new 80 80) (Point_new 104 112) (Point_new 0 0) (Point_new 800 600)
     = Some (Point_new 80 80, Point_new 104 112)"
  by (simp add: clipLine_def computeRegion_def Point_new_def)

lemma example_mag:
  "Point_mag_rnd exact (Point_sub_rnd exact (Point_new 104 112) (Point_new 80 80)) = 40"
  by (simp add: Point_mag_rnd_def Point_sub_rnd_def Point_new_def exact_def sqrt_1600)

lemma example_chain:
  "chainCircles exact frameIndex2 10 examplePath =
     Some [\<lparr>circle_point = Point_new 80 80, circle_radius = 10\<rparr>,
           \<lparr>circle_point = Point_new 104 112, circle_radius = 10\<rparr>,
           \<lparr>circle_point = Point_new 92 96, circle_radius = 10\<rparr>]"
proof -
  have u: "[1..1::int] = [1]" by (simp add: upto.simps)
  have p: "placeSegment exact 10 ([], None) (Point_new 80 80, Point_new 104 112) =
     Some ([\<lparr>circle_point = Point_new 80 80, circle_radius = 10\<rparr>,
           \<lparr>circle_point = Point_new 104 112, circle_radius = 10\<rparr>,
           \<lparr>circle_point = Point_new 92 96, circle_radius = 10\<rparr>], Some (Point_new 104 112))"
    by (simp add: placeSegment_def Let_def example_mag)
       (simp add: exact_def u Point_add_rnd_def Point_mult_rnd_def Point_div_rnd_def
          Point_sub_rnd_def Point_new_def)
  show ?thesis
    by (simp add: chainCircles_def examplePath_def frameIndex2_fields example_clip p)
qed

lemma example_chain_negative:
  "chainCircles exact frameIndex2 (- 5) examplePath =
     Some [\<lparr>circle_point = Point_new 80 80, circle_radius = - 5\<rparr>,
           \<lparr>circle_point = Point_new 104 112, circle_radius = - 5\<rparr>]"
proof -
  have p: "placeSegment exact (- 5) ([], None) (Point_new 80 80, Point_new 104 112) =
     Some ([\<lparr>circle_point = Point_new 80 80, circle_radius = - 5\<rparr>,
           \<lparr>circle_point = Point_new 104 112, circle_radius = - 5\<rparr>], Some (Point_new 104 112))"
    by (simp add: placeSegment_def Let_def example_mag) (simp add: exact_def)
  show ?thesis
    by (simp add: chainCircles_def examplePath_def frameIndex2_fields example_clip p)
qed

lemma example_anchor:
  "w \<noteq> 0 \<Longrightarrow> projectAnchor frameIndex2 (translation 0 0 w) (anchorX originSymbol) (anchorY originSymbol)
     = Some \<lparr>ap_perspectiveRatio = 0.5 + 0.5 * (1 / w), cameraDistance = w\<rparr>"
  by (simp add: projectAnchor_def xyTransformMat4_translation frameIndex2_fields originSymbol_def)

lemma example_place:
  "twoPointPath a b c (sameProjection (Point_new (anchorX originSymbol) (anchorY originSymbol)) m)
      (Point_new (anchorX originSymbol) (anchorY originSymbol)) = Some examplePath"
  by (simp add: twoPointPath_def sameProjection_def examplePath_def originSymbol_def)

text \<open>
  C4. In a call of \<open>placeCollisionCircles\<close> with \<open>allowOverlap = false\<close> in which a circle
  of the chain intersects an entry of the occlusion grid that the predicate accepts, the
  circles returned are empty. Without \<open>showCollisionCircles\<close> the call returns at the first
  such circle, with \<open>offscreen: false\<close>; with it the loop goes over all the circles, and
  \<open>offscreen\<close> says whether all of them are off the screen.
\<close>

theorem collision_rejects_chain:
  assumes "projectAnchor ci posMatrix (anchorX symbol) (anchorY symbol) = Some pa"
    and "placeFirstAndLastGlyph (fontSize * ap_perspectiveRatio pa / 24)
           (lineOffsetX symbol * (fontSize * ap_perspectiveRatio pa / 24))
           (lineOffsetY symbol * (fontSize * ap_perspectiveRatio pa / 24))
           (project (Point_new (anchorX symbol) (anchorY symbol)) labelPlaneMatrix)
           (Point_new (anchorX symbol) (anchorY symbol)) = Some fl"
    and "chainCircles rnd ci (rnd (10 * ap_perspectiveRatio pa)) fl = Some cs"
    and "\<exists>c \<in> set cs. circleHits ci predicate c"
  shows "placeCollisionCircles rnd project placeFirstAndLastGlyph ci collisionCircles False scale
           textPixelRatio symbol fontSize posMatrix labelPlaneMatrix showCollisionCircles pitchWithMap
           predicate =
         Some \<lparr>circles = [],
               circles_offscreen = (showCollisionCircles \<and> (\<forall>c \<in> set cs. circleOffscreen ci c))\<rparr>"
proof (cases showCollisionCircles)
  case False
  with assms show ?thesis
    by (simp add: placeCollisionCircles_def Let_def circleLoop_early_exit)
next
  case True
  with assms show ?thesis
    by (simp add: placeCollisionCircles_def Let_def circleLoop_scan)
qed

theorem collision_rejects_chain_witness:
  "chainCircles exact frameIndex2 10 examplePath =
     Some [\<lparr>circle_point = Point_new 80 80, circle_radius = 10\<rparr>,
           \<lparr>circle_point = Point_new 104 112, circle_radius = 10\<rparr>,
           \<lparr>circle_point = Point_new 92 96, circle_radius = 10\<rparr>] \<and>
   circleHits frameIndex2 None \<lparr>circle_point = Point_new 104 112, circle_radius = 10\<rparr> \<and>
   placeCollisionCircles exact sameProjection twoPointPath frameIndex2 [] False 1 1 originSymbol 24
      (translation 0 0 1) (translation 0 0 1) False False None
     = Some \<lparr>circles = [], circles_offscreen = False\<rparr> \<and>
   placeCollisionCircles exact sameProjection twoPointPath frameIndex2 [] False 1 1 originSymbol 24
      (translation 0 0 1) (translation 0 0 1) True False None
     = Some \<lparr>circles = [], circles_offscreen = False\<rparr>"
proof -
  let ?A = "Point_new 80 80" and ?B = "Point_new 104 112"
  let ?pa = "\<lparr>ap_perspectiveRatio = 1, cameraDistance = 1\<rparr>"
  let ?cs = "[\<lparr>circle_point = ?A, circle_radius = 10\<rparr>, \<lparr>circle_point = ?B, circle_radius = 10\<rparr>,
              \<lparr>circle_point = Point_new 92 96, circle_radius = 10\<rparr>]"
  have a: "projectAnchor frameIndex2 (translation 0 0 1) (anchorX originSymbol) (anchorY originSymbol)
     = Some ?pa"
    using example_anchor [of 1] by simp
  have pl: "twoPointPath (24 * ap_perspectiveRatio ?pa / 24)
           (lineOffsetX originSymbol * (24 * ap_perspectiveRatio ?pa / 24))
           (lineOffsetY originSymbol * (24 * ap_perspectiveRatio ?pa / 24))
           (sameProjection (Point_new (anchorX originSymbol) (anchorY originSymbol)) (translation 0 0 1))
           (Point_new (anchorX originSymbol) (anchorY originSymbol)) = Some examplePath"
    by (rule example_place)
  have ch: "chainCircles exact frameIndex2 (exact (10 * ap_perspectiveRatio ?pa)) examplePath = Some ?cs"
    using example_chain by (simp add: exact_def)
  have hit: "circleHits frameIndex2 None \<lparr>circle_point = ?B, circle_radius = 10\<rparr>"
    by (simp add: circleHits_def Grid_hitTestCircle_def frameIndex2_fields entryOfBox_def blocks_def
        accepts_def circleIntersectsBox_def clamp_def Point_new_def viewportPadding_def)
  then have ex: "\<exists>c \<in> set ?cs. circleHits frameIndex2 None c" by simp
  have off: "\<not> circleOffscreen frameIndex2 \<lparr>circle_point = ?A, circle_radius = 10\<rparr>"
    by (simp add: circleOffscreen_def isOffscreen_def frameIndex2_fields Point_new_def viewportPadding_def)
  then have all: "\<not> (\<forall>c \<in> set ?cs. circleOffscreen frameIndex2 c)" by simp
  show ?thesis
    using collision_rejects_chain [where project = sameProjection
            and placeFirstAndLastGlyph = twoPointPath and collisionCircles = "[]" and scale = 1
            and textPixelRatio = 1 and showCollisionCircles = False and pitchWithMap = False,
            OF a pl ch ex]
          collision_rejects_chain [where project = sameProjection
            and placeFirstAndLastGlyph = twoPointPath and collisionCircles = "[]" and scale = 1
            and textPixelRatio = 1 and showCollisionCircles = True and pitchWithMap = False,
            OF a pl ch ex]
          all hit example_chain
    by simp
qed

text \<open>
  C3, as the spec has it, fails where the perspective ratio is not positive. With the
  homogeneous coordinate \<open>w = -1/2\<close> the ratio is \<open>-1/2\<close> and the radius is \<open>-5\<close>; the
  chain is accepted, its segment of length 40 gets no circle inside, and its two circles
  are 40 apart.
\<close>

theorem circle_spacing_counterexample:
  "placeCollisionCircles exact sameProjection twoPointPath frameIndex2 [] True 1 1 originSymbol 24
      (translation 0 0 (- (1 / 2))) (translation 0 0 1) False False None
     = Some \<lparr>circles = [180, 180, - 5, 0, 204, 212, - 5, 0], circles_offscreen = False\<rparr> \<and>
   map_option ap_perspectiveRatio
     (projectAnchor frameIndex2 (translation 0 0 (- (1 / 2))) (anchorX originSymbol) (anchorY originSymbol))
     = Some (- (1 / 2)) \<and>
   clipLine (Point_new 80 80) (Point_new 104 112) (Point_new 0 0)
      (Point_new (width (transform frameIndex2)) (height (transform frameIndex2)))
     = Some (Point_new 80 80, Point_new 104 112) \<and>
   Point_dist (Point_new 80 80) (Point_new 104 112) = 40 \<and>
   \<not> (40 \<le> 2 * (10 * (- (1 / 2) :: real)))"
proof -
  have a: "projectAnchor frameIndex2 (translation 0 0 (- (1 / 2))) (anchorX originSymbol) (anchorY originSymbol)
     = Some \<lparr>ap_perspectiveRatio = - (1 / 2), cameraDistance = - (1 / 2)\<rparr>"
    using example_anchor [of "- (1 / 2)"] by simp
  have l: "circleLoop frameIndex2 True False None
             [\<lparr>circle_point = Point_new 80 80, circle_radius = - 5\<rparr>,
              \<lparr>circle_point = Point_new 104 112, circle_radius = - 5\<rparr>] ([], False, False, True)
           = Inr ([180, 180, - 5, 0, 204, 212, - 5, 0], False, True, False)"
    by (simp add: Let_def Point_new_def viewportPadding_def isOffscreen_def isInsideGrid_def
        frameIndex2_fields)
  have p: "placeCollisionCircles exact sameProjection twoPointPath frameIndex2 [] True 1 1 originSymbol 24
      (translation 0 0 (- (1 / 2))) (translation 0 0 1) False False None
     = Some \<lparr>circles = [180, 180, - 5, 0, 204, 212, - 5, 0], circles_offscreen = False\<rparr>"
    unfolding placeCollisionCircles_def a
    by (simp add: Let_def example_place exact_def [of "- 5"] example_chain_negative l del: circleLoop.simps)
  have d: "Point_dist (Point_new 80 80) (Point_new 104 112) = 40"
    by (simp add: Point_dist_def Point_new_def sqrt_1600)
  show ?thesis using p a d example_clip by (simp add: frameIndex2_fields)
qed

text \<open>
  C3, amended. In every circle chain accepted by \<open>placeCollisionCircles\<close> whose radius, the
  double \<open>10 * perspectiveRatio\<close>, is positive, and in whose construction no result
  overflows or underflows, the circles of every clipped segment are in the result, and
  every segment from \<open>s\<close> to \<open>e\<close> gets the circle at \<open>e\<close> and
  \<open>n = ceil(segLen / (2 * radius)) - 1\<close> circles inside, with \<open>segLen\<close>, \<open>2 * radius\<close> and the
  quotient as the doubles that the code computes (none for a segment of length zero, where
  \<open>n = -1\<close>), at \<open>s + ((e - s) / (n + 1)) * k\<close> for \<open>k\<close> from 1 to \<open>n\<close>, all of that radius.
  Consecutive positions, from \<open>s\<close> at 0 to \<open>e\<close> at \<open>n + 1\<close>, are at most \<open>2 * radius\<close> apart
  up to the rounding: at most \<open>spacingBound radius s e\<close>, which is
  \<open>2 * radius * (1 + u) / (1 - u)^4\<close> and \<open>2 * u\<close> times a sum of coordinates, \<open>u = 2^-53\<close>.
\<close>

theorem circle_spacing:
  assumes "standardRounding rnd"
    and "placeCollisionCircles rnd project placeFirstAndLastGlyph ci collisionCircles allowOverlap scale
             textPixelRatio symbol fontSize posMatrix labelPlaneMatrix showCollisionCircles pitchWithMap
             predicate = Some res"
    and "circles res \<noteq> []"
    and "projectAnchor ci posMatrix (anchorX symbol) (anchorY symbol) = Some pa"
    and "placeFirstAndLastGlyph (fontSize * ap_perspectiveRatio pa / 24)
           (lineOffsetX symbol * (fontSize * ap_perspectiveRatio pa / 24))
           (lineOffsetY symbol * (fontSize * ap_perspectiveRatio pa / 24))
           (project (Point_new (anchorX symbol) (anchorY symbol)) labelPlaneMatrix)
           (Point_new (anchorX symbol) (anchorY symbol)) = Some fl"
    and "radius = rnd (10 * ap_perspectiveRatio pa)" and "0 < radius"
    and "path = rev (tl (first_path fl)) @ tl (last_path fl)"
  shows "\<exists>cs. chainCircles rnd ci radius fl = Some cs \<and> circles res = concat (map circleTuple cs) \<and>
           (\<forall>j s e. j + 1 < length path \<and>
                clipLine (path ! j) (path ! (j + 1)) (Point_new 0 0)
                  (Point_new (width (transform ci)) (height (transform ci))) = Some (s, e)
              \<longrightarrow> set (segmentCircles rnd radius s e) \<subseteq> set cs) \<and>
           (\<forall>s e st. \<exists>pre. placeSegment rnd radius st (s, e) =
                Some (fst st @ pre @ segmentCircles rnd radius s e, Some e)) \<and>
           (\<forall>s e.
              segmentCircles rnd radius s e =
                \<lparr>circle_point = e, circle_radius = radius\<rparr> #
                map (\<lambda>k. \<lparr>circle_point = segmentCentre rnd radius s e k, circle_radius = radius\<rparr>)
                  [1..circlesInSegment rnd radius s e] \<and>
              - 1 \<le> circlesInSegment rnd radius s e \<and>
              segmentCentre rnd radius s e 0 = s \<and>
              segmentCentre rnd radius s e (circlesInSegment rnd radius s e + 1) = e \<and>
              (\<forall>k \<in> {0..circlesInSegment rnd radius s e}.
                 Point_dist (segmentCentre rnd radius s e k) (segmentCentre rnd radius s e (k + 1))
                   \<le> spacingBound radius s e))"
proof -
  have nz: "rnd (2 * radius) \<noteq> 0"
    using rnd_pos [OF assms(1), of "2 * radius"] assms(7) by simp
  from accepted_chain [OF assms(2-5)] assms(6) obtain cs
    where cs: "chainCircles rnd ci radius fl = Some cs" "circles res = concat (map circleTuple cs)"
    by auto
  have sub: "set (segmentCircles rnd radius s e) \<subseteq> set cs"
    if "j + 1 < length path \<and>
        clipLine (path ! j) (path ! (j + 1)) (Point_new 0 0)
          (Point_new (width (transform ci)) (height (transform ci))) = Some (s, e)" for j s e
    using chainCircles_segment [where rnd = rnd and radius = radius, OF nz cs(1) assms(8)] that
    by blast
  have seg: "\<exists>pre. placeSegment rnd radius st (s, e) =
                Some (fst st @ pre @ segmentCircles rnd radius s e, Some e)" for s e st
    using placeSegment_positive [where rnd = rnd and radius = radius and cs = "fst st"
        and l = "snd st" and s = s and e = e, OF nz] by auto
  have eq: "segmentCircles rnd radius s e =
                \<lparr>circle_point = e, circle_radius = radius\<rparr> #
                map (\<lambda>k. \<lparr>circle_point = segmentCentre rnd radius s e k, circle_radius = radius\<rparr>)
                  [1..circlesInSegment rnd radius s e]" for s e
    by (simp add: segmentCircles_def segmentCentre_def)
  note d = segment_spacing [OF assms(1,7)]
  show ?thesis
    using cs sub seg eq d by blast
qed

theorem circle_spacing_witness:
  "standardRounding exact \<and>
   placeCollisionCircles exact sameProjection twoPointPath frameIndex2 [] True 1 1 originSymbol 24
      (translation 0 0 1) (translation 0 0 1) False False None
     = Some \<lparr>circles = [180, 180, 10, 0, 204, 212, 10, 0, 192, 196, 10, 0],
             circles_offscreen = False\<rparr> \<and>
   clipLine (Point_new 80 80) (Point_new 104 112) (Point_new 0 0)
      (Point_new (width (transform frameIndex2)) (height (transform frameIndex2)))
     = Some (Point_new 80 80, Point_new 104 112) \<and>
   circlesInSegment exact 10 (Point_new 80 80) (Point_new 104 112) = 1 \<and>
   segmentCircles exact 10 (Point_new 80 80) (Point_new 104 112) =
     [\<lparr>circle_point = Point_new 104 112, circle_radius = 10\<rparr>,
      \<lparr>circle_point = Point_new 92 96, circle_radius = 10\<rparr>] \<and>
   set (segmentCircles exact 10 (Point_new 80 80) (Point_new 104 112)) \<subseteq>
     set [\<lparr>circle_point = Point_new 80 80, circle_radius = 10\<rparr>,
          \<lparr>circle_point = Point_new 104 112, circle_radius = 10\<rparr>,
          \<lparr>circle_point = Point_new 92 96, circle_radius = 10\<rparr>] \<and>
   segmentCentre exact 10 (Point_new 80 80) (Point_new 104 112) 1 = Point_new 92 96 \<and>
   Point_dist (segmentCentre exact 10 (Point_new 80 80) (Point_new 104 112) 0)
              (segmentCentre exact 10 (Point_new 80 80) (Point_new 104 112) 1) = 20 \<and>
   Point_dist (segmentCentre exact 10 (Point_new 80 80) (Point_new 104 112) 0)
              (segmentCentre exact 10 (Point_new 80 80) (Point_new 104 112) (0 + 1))
     \<le> spacingBound 10 (Point_new 80 80) (Point_new 104 112) \<and>
   Point_dist (segmentCentre exact 10 (Point_new 80 80) (Point_new 104 112) 1)
              (segmentCentre exact 10 (Point_new 80 80) (Point_new 104 112) (1 + 1))
     \<le> spacingBound 10 (Point_new 80 80) (Point_new 104 112)"
proof -
  let ?A = "Point_new 80 80" and ?B = "Point_new 104 112"
  let ?pa = "\<lparr>ap_perspectiveRatio = 1, cameraDistance = 1\<rparr>"
  let ?res = "\<lparr>circles = [180, 180, 10, 0, 204, 212, 10, 0, 192, 196, 10, 0],
             circles_offscreen = False\<rparr>"
  let ?path = "rev (tl (first_path examplePath)) @ tl (last_path examplePath)"
  have R: "standardRounding exact" by (simp add: standardRounding_def exact_def unitRoundoff_def)
  have a: "projectAnchor frameIndex2 (translation 0 0 1) (anchorX originSymbol) (anchorY originSymbol)
     = Some ?pa"
    using example_anchor [of 1] by simp
  have l: "circleLoop frameIndex2 True False None
             [\<lparr>circle_point = ?A, circle_radius = 10\<rparr>, \<lparr>circle_point = ?B, circle_radius = 10\<rparr>,
              \<lparr>circle_point = Point_new 92 96, circle_radius = 10\<rparr>] ([], False, False, True)
           = Inr ([180, 180, 10, 0, 204, 212, 10, 0, 192, 196, 10, 0], False, True, False)"
    by (simp add: Let_def Point_new_def viewportPadding_def isOffscreen_def isInsideGrid_def
        frameIndex2_fields)
  have p: "placeCollisionCircles exact sameProjection twoPointPath frameIndex2 [] True 1 1 originSymbol 24
      (translation 0 0 1) (translation 0 0 1) False False None = Some ?res"
    unfolding placeCollisionCircles_def a
    by (simp add: Let_def example_place exact_def [of 10] example_chain l del: circleLoop.simps)
  have ne: "circles ?res \<noteq> []" by simp
  have pl: "twoPointPath (24 * ap_perspectiveRatio ?pa / 24)
           (lineOffsetX originSymbol * (24 * ap_perspectiveRatio ?pa / 24))
           (lineOffsetY originSymbol * (24 * ap_perspectiveRatio ?pa / 24))
           (sameProjection (Point_new (anchorX originSymbol) (anchorY originSymbol)) (translation 0 0 1))
           (Point_new (anchorX originSymbol) (anchorY originSymbol)) = Some examplePath"
    by (rule example_place)
  have r: "(10::real) = exact (10 * ap_perspectiveRatio ?pa)" by (simp add: exact_def)
  have pos: "(0::real) < 10" by simp
  have len: "0 + 1 < length ?path" by (simp add: examplePath_def)
  have c: "clipLine (?path ! 0) (?path ! (0 + 1)) (Point_new 0 0)
             (Point_new (width (transform frameIndex2)) (height (transform frameIndex2))) = Some (?A, ?B)"
    by (simp add: examplePath_def frameIndex2_fields example_clip)
  have n: "circlesInSegment exact 10 ?A ?B = 1"
    by (simp add: circlesInSegment_def example_mag) (simp add: exact_def)
  have u: "[1..1::int] = [1]" by (simp add: upto.simps)
  have ic: "interiorCentre exact 10 ?A ?B 1 = Point_new 92 96"
    by (simp add: interiorCentre_def n)
       (simp add: exact_def Point_add_rnd_def Point_mult_rnd_def Point_div_rnd_def
          Point_sub_rnd_def Point_new_def)
  have sc: "segmentCircles exact 10 ?A ?B =
     [\<lparr>circle_point = ?B, circle_radius = 10\<rparr>, \<lparr>circle_point = Point_new 92 96, circle_radius = 10\<rparr>]"
    by (simp add: segmentCircles_def n u ic)
  have c0: "segmentCentre exact 10 ?A ?B 0 = ?A" by (simp add: segmentCentre_def)
  have c1: "segmentCentre exact 10 ?A ?B 1 = Point_new 92 96" by (simp add: segmentCentre_def n ic)
  have sqrt_400: "sqrt 400 = 20" by (rule real_sqrt_unique) simp_all
  have d: "Point_dist (segmentCentre exact 10 ?A ?B 0) (segmentCentre exact 10 ?A ?B 1) = 20"
    unfolding c0 c1 by (simp add: Point_dist_def Let_def Point_new_def sqrt_400)
  note sp = circle_spacing [where rnd = exact and project = sameProjection
      and placeFirstAndLastGlyph = twoPointPath
      and ci = frameIndex2 and symbol = originSymbol and fontSize = 24 and pa = ?pa
      and fl = examplePath and radius = 10 and path = ?path,
      OF R p ne a pl r pos refl]
  from sp obtain cs where cs: "chainCircles exact frameIndex2 10 examplePath = Some cs"
    and m: "\<forall>j s e. j + 1 < length ?path \<and>
                clipLine (?path ! j) (?path ! (j + 1)) (Point_new 0 0)
                  (Point_new (width (transform frameIndex2)) (height (transform frameIndex2))) = Some (s, e)
              \<longrightarrow> set (segmentCircles exact 10 s e) \<subseteq> set cs"
    and b: "\<forall>s e.
              segmentCircles exact 10 s e =
                \<lparr>circle_point = e, circle_radius = 10\<rparr> #
                map (\<lambda>k. \<lparr>circle_point = segmentCentre exact 10 s e k, circle_radius = 10\<rparr>)
                  [1..circlesInSegment exact 10 s e] \<and>
              - 1 \<le> circlesInSegment exact 10 s e \<and>
              segmentCentre exact 10 s e 0 = s \<and>
              segmentCentre exact 10 s e (circlesInSegment exact 10 s e + 1) = e \<and>
              (\<forall>k \<in> {0..circlesInSegment exact 10 s e}.
                 Point_dist (segmentCentre exact 10 s e k) (segmentCentre exact 10 s e (k + 1))
                   \<le> spacingBound 10 s e)"
    by (elim exE conjE) (rule that)
  from cs have cse: "cs = [\<lparr>circle_point = ?A, circle_radius = 10\<rparr>, \<lparr>circle_point = ?B, circle_radius = 10\<rparr>,
              \<lparr>circle_point = Point_new 92 96, circle_radius = 10\<rparr>]"
    by (simp add: example_chain)
  from m len c have m1: "set (segmentCircles exact 10 ?A ?B) \<subseteq> set cs" by blast
  from b have b1: "\<forall>k \<in> {0..circlesInSegment exact 10 ?A ?B}.
                 Point_dist (segmentCentre exact 10 ?A ?B k) (segmentCentre exact 10 ?A ?B (k + 1))
                   \<le> spacingBound 10 ?A ?B" by blast
  have k0: "(0::int) \<in> {0..circlesInSegment exact 10 ?A ?B}"
    and k1: "(1::int) \<in> {0..circlesInSegment exact 10 ?A ?B}" by (simp_all add: n)
  note b0 = bspec [OF b1 k0] and b1' = bspec [OF b1 k1]
  from R p example_clip n sc m1 [unfolded cse] c1 d b0 b1' show ?thesis
    by (simp only: frameIndex2_fields simp_thms)
qed

end
